theory Spec2Isabelle
  imports Complex_Main
begin

section \<open>JavaScript values and errors\<close>

text \<open>
  The tools of \<^verbatim>\<open>server/tools.ts\<close> (and of the second tools file, which makes up the
  larger part of \<^verbatim>\<open>server/schema.ts\<close>) are modelled by their \<^verbatim>\<open>execute\<close> functions.
  A thrown value is either an \<^verbatim>\<open>Error\<close> carrying its message or some other value; the
  tools only ever look at \<^verbatim>\<open>error instanceof Error ? error.message : 'Unknown error'\<close>.
  A string is a list of characters, each standing for one code unit below 256.
\<close>

datatype exn = Error string | Thrown

definition error_message :: "exn \<Rightarrow> string" where
  "error_message e = (case e of Error m \<Rightarrow> m | Thrown \<Rightarrow> ''Unknown error'')"

text \<open>The two user-facing failures: \<^verbatim>\<open>throw new Error("Todo not found")\<close> and
  \<^verbatim>\<open>throw new Error("Failed to generate todo")\<close>.\<close>

definition NotFound :: exn where
  "NotFound = Error ''Todo not found''"

definition GenerationError :: exn where
  "GenerationError = Error ''Failed to generate todo''"

text \<open>Reading a property of \<^verbatim>\<open>undefined\<close> (as in \<^verbatim>\<open>todo[0].id\<close> on an empty array).\<close>

definition TypeError :: exn where
  "TypeError = Error ''Cannot read properties of undefined''"

text \<open>Truthiness of an optional string: \<^verbatim>\<open>undefined\<close>, \<^verbatim>\<open>null\<close> and \<^verbatim>\<open>''\<close> are falsy.\<close>

definition truthy :: "string option \<Rightarrow> bool" where
  "truthy v = (case v of None \<Rightarrow> False | Some s \<Rightarrow> s \<noteq> [])"

text \<open>\<^verbatim>\<open>v || d\<close> with a string default, and \<^verbatim>\<open>v || null\<close>.\<close>

definition or_str :: "string option \<Rightarrow> string \<Rightarrow> string" where
  "or_str v d = (case v of None \<Rightarrow> d | Some s \<Rightarrow> if s = [] then d else s)"

definition or_null :: "string option \<Rightarrow> string option" where
  "or_null v = (case v of None \<Rightarrow> None | Some s \<Rightarrow> if s = [] then None else Some s)"

text \<open>The values a generated title can take, and \<^verbatim>\<open>String(v)\<close> on them.\<close>

datatype jsval = Undefined | Null | Str string

definition String :: "jsval \<Rightarrow> string" where
  "String v = (case v of Undefined \<Rightarrow> ''undefined'' | Null \<Rightarrow> ''null'' | Str s \<Rightarrow> s)"

section \<open>Schema and store\<close>

text \<open>
  \<^verbatim>\<open>todosTable\<close>: an integer primary key, a nullable text and a nullable integer with
  default 0. \<^verbatim>\<open>passengersTable\<close>: the union of the columns of the two schema versions of
  the repository, every text column nullable in the model (the version with \<^verbatim>\<open>notNull\<close>
  columns never stores \<^verbatim>\<open>None\<close> there).
\<close>

record todo_row =
  todo_id :: int
  title :: "string option"
  completed :: "int option"

record passenger_values =
  firstName :: "string option"
  lastName :: "string option"
  email :: "string option"
  phone :: "string option"
  passportNumber :: "string option"
  nationality :: "string option"
  dateOfBirth :: "string option"
  seatNumber :: "string option"
  flightNumber :: "string option"
  departureCity :: "string option"
  arrivalCity :: "string option"
  departureDate :: "string option"
  ticketClass :: "string option"
  price :: "string option"
  status :: "string option"
  distance :: "string option"

record passenger = passenger_values +
  passenger_id :: int
  createdAt :: "string option"

record store =
  todosTable :: "todo_row list"
  passengersTable :: "passenger list"

text \<open>
  \<^verbatim>\<open>getDb\<close> (of \<^verbatim>\<open>db.ts\<close>) and the query builder are not part of the sources. Each call
  on them either throws or does what its SQL statement says; which calls throw is a
  parameter of every tool: \<open>env op s\<close> is the value thrown by a call of kind \<open>op\<close> issued
  on store \<open>s\<close>, or \<open>None\<close> when the call goes through.
\<close>

datatype dbop = GetDb | Select | Insert | Update | Delete

type_synonym env = "dbop \<Rightarrow> store \<Rightarrow> exn option"

definition healthy :: env where
  "healthy = (\<lambda>op s. None)"

definition getDb :: "env \<Rightarrow> store \<Rightarrow> exn + unit" where
  "getDb env s = (case env GetDb s of Some e \<Rightarrow> Inl e | None \<Rightarrow> Inr ())"

text \<open>An integer primary key left out of an insert is one more than the largest stored
  (1 in an empty table).\<close>

definition fresh_id :: "int list \<Rightarrow> int" where
  "fresh_id ids = foldr max ids 0 + 1"

text \<open>\<^verbatim>\<open>db.select().from(todosTable)\<close>\<close>

definition select_todos :: "env \<Rightarrow> store \<Rightarrow> exn + todo_row list" where
  "select_todos env s =
     (case env Select s of Some e \<Rightarrow> Inl e | None \<Rightarrow> Inr (todosTable s))"

text \<open>\<^verbatim>\<open>db.select().from(todosTable).where(eq(todosTable.id, id)).limit(1)\<close>\<close>

definition select_todo_where_id :: "env \<Rightarrow> int \<Rightarrow> store \<Rightarrow> exn + todo_row list" where
  "select_todo_where_id env i s =
     (case env Select s of
        Some e \<Rightarrow> Inl e
      | None \<Rightarrow> Inr (take 1 (filter (\<lambda>r. todo_id r = i) (todosTable s))))"

text \<open>\<^verbatim>\<open>db.insert(todosTable).values({title, completed}).returning({id: todosTable.id})\<close>\<close>

definition insert_todo ::
  "env \<Rightarrow> string option \<Rightarrow> int option \<Rightarrow> store \<Rightarrow> exn + (int list \<times> store)" where
  "insert_todo env t c s =
     (case env Insert s of
        Some e \<Rightarrow> Inl e
      | None \<Rightarrow>
          (let i = fresh_id (map todo_id (todosTable s))
           in Inr ([i],
                s\<lparr>todosTable := todosTable s @ [\<lparr>todo_id = i, title = t, completed = c\<rparr>]\<rparr>)))"

text \<open>\<^verbatim>\<open>db.update(todosTable).set({completed}).where(eq(todosTable.id, id)).returning()\<close>\<close>

definition set_completed :: "int \<Rightarrow> int \<Rightarrow> todo_row \<Rightarrow> todo_row" where
  "set_completed i c r = (if todo_id r = i then r\<lparr>completed := Some c\<rparr> else r)"

definition update_todo_completed ::
  "env \<Rightarrow> int \<Rightarrow> int \<Rightarrow> store \<Rightarrow> exn + (todo_row list \<times> store)" where
  "update_todo_completed env i c s =
     (case env Update s of
        Some e \<Rightarrow> Inl e
      | None \<Rightarrow>
          (let rows = map (set_completed i c) (todosTable s)
           in Inr (filter (\<lambda>r. todo_id r = i) rows, s\<lparr>todosTable := rows\<rparr>)))"

text \<open>\<^verbatim>\<open>db.delete(todosTable).where(eq(todosTable.id, id))\<close>\<close>

definition delete_todo_where_id :: "env \<Rightarrow> int \<Rightarrow> store \<Rightarrow> exn + store" where
  "delete_todo_where_id env i s =
     (case env Delete s of
        Some e \<Rightarrow> Inl e
      | None \<Rightarrow> Inr (s\<lparr>todosTable := filter (\<lambda>r. todo_id r \<noteq> i) (todosTable s)\<rparr>))"

section \<open>Todo tools\<close>

text \<open>The todo of the output schemas: \<^verbatim>\<open>{id, title, completed: boolean}\<close>.\<close>

record todo =
  id_out :: int
  title_out :: "string option"
  completed_out :: bool

text \<open>Every tool returns what it returned or threw, and the store it left behind.\<close>

type_synonym 'a outcome = "(exn + 'a) \<times> store"

definition listTodos :: "env \<Rightarrow> store \<Rightarrow> todo list outcome" where
  "listTodos env s =
     (case getDb env s of
        Inl e \<Rightarrow> (Inl e, s)
      | Inr _ \<Rightarrow>
          (case select_todos env s of
             Inl e \<Rightarrow> (Inl e, s)
           | Inr todos \<Rightarrow>
               (Inr (map (\<lambda>r. \<lparr>id_out = todo_id r, title_out = title r,
                                completed_out = (completed r = Some 1)\<rparr>) todos), s)))"

text \<open>
  \<^verbatim>\<open>generatedTodo.object?.title\<close>: the collaborator's answer has no object, or an object
  whose \<^verbatim>\<open>title\<close> is some value. The collaborator itself may throw.
\<close>

datatype generated = NoObject | Object jsval

definition object_title :: "generated \<Rightarrow> jsval" where
  "object_title g = (case g of NoObject \<Rightarrow> Undefined | Object t \<Rightarrow> t)"

definition generateTodo :: "env \<Rightarrow> exn + generated \<Rightarrow> store \<Rightarrow> todo outcome" where
  "generateTodo env ai s =
     (case getDb env s of
        Inl e \<Rightarrow> (Inl e, s)
      | Inr _ \<Rightarrow>
          (case ai of
             Inl e \<Rightarrow> (Inl e, s)
           | Inr generatedTodo \<Rightarrow>
               (let generatedTodoTitle = String (object_title generatedTodo)
                in if \<not> truthy (Some generatedTodoTitle) then (Inl GenerationError, s)
                   else
                     (case insert_todo env (Some generatedTodoTitle) (Some 0) s of
                        Inl e \<Rightarrow> (Inl e, s)
                      | Inr (ids, s') \<Rightarrow>
                          (case ids of
                             [] \<Rightarrow> (Inl TypeError, s')
                           | i # _ \<Rightarrow>
                               (Inr \<lparr>id_out = i, title_out = Some generatedTodoTitle,
                                     completed_out = False\<rparr>, s'))))))"

definition toggleTodo :: "env \<Rightarrow> int \<Rightarrow> store \<Rightarrow> todo outcome" where
  "toggleTodo env i s =
     (case getDb env s of
        Inl e \<Rightarrow> (Inl e, s)
      | Inr _ \<Rightarrow>
          (case select_todo_where_id env i s of
             Inl e \<Rightarrow> (Inl e, s)
           | Inr currentTodo \<Rightarrow>
               (case currentTodo of
                  [] \<Rightarrow> (Inl NotFound, s)
                | cur # _ \<Rightarrow>
                    (let newCompletedStatus = (if completed cur = Some 1 then 0 else 1)
                     in case update_todo_completed env i newCompletedStatus s of
                          Inl e \<Rightarrow> (Inl e, s)
                        | Inr (updatedTodo, s') \<Rightarrow>
                            (case updatedTodo of
                               [] \<Rightarrow> (Inl TypeError, s')
                             | u # _ \<Rightarrow>
                                 (Inr \<lparr>id_out = todo_id u, title_out = title u,
                                       completed_out = (completed u = Some 1)\<rparr>, s'))))))"

text \<open>The result of \<^verbatim>\<open>DELETE_TODO\<close>: \<^verbatim>\<open>{success, deletedId}\<close>.\<close>

record deleted =
  success_del :: bool
  deletedId :: int

definition deleteTodo :: "env \<Rightarrow> int \<Rightarrow> store \<Rightarrow> deleted outcome" where
  "deleteTodo env i s =
     (case getDb env s of
        Inl e \<Rightarrow> (Inl e, s)
      | Inr _ \<Rightarrow>
          (case select_todo_where_id env i s of
             Inl e \<Rightarrow> (Inl e, s)
           | Inr existingTodo \<Rightarrow>
               (case existingTodo of
                  [] \<Rightarrow> (Inl NotFound, s)
                | _ # _ \<Rightarrow>
                    (case delete_todo_where_id env i s of
                       Inl e \<Rightarrow> (Inl e, s)
                     | Inr s' \<Rightarrow> (Inr \<lparr>success_del = True, deletedId = i\<rparr>, s')))))"

section \<open>Strings\<close>

text \<open>
  \<^verbatim>\<open>s.trim()\<close> strips white space and line terminators at both ends; below code unit 256
  these are tab, line feed, vertical tab, form feed, carriage return, space and the
  no-break space.
\<close>

definition isWhiteSpace :: "char \<Rightarrow> bool" where
  "isWhiteSpace c = (of_char c \<in> {9, 10, 11, 12, 13, 32, 160 :: nat})"

definition trim :: "string \<Rightarrow> string" where
  "trim s = rev (dropWhile isWhiteSpace (rev (dropWhile isWhiteSpace s)))"

text \<open>\<^verbatim>\<open>s.split(c)\<close> for a separator of one character: never an empty array.\<close>

fun split :: "char \<Rightarrow> string \<Rightarrow> string list" where
  "split c [] = [[]]"
| "split c (x # xs) =
     (if x = c then [] # split c xs
      else (case split c xs of [] \<Rightarrow> [[x]] | w # ws \<Rightarrow> (x # w) # ws))"

text \<open>\<^verbatim>\<open>values[i]\<close>: \<^verbatim>\<open>undefined\<close> beyond the end of the array.\<close>

definition at_index :: "'a list \<Rightarrow> nat \<Rightarrow> 'a option" where
  "at_index xs i = (if i < length xs then Some (xs ! i) else None)"

text \<open>\<^verbatim>\<open>String(n)\<close> of a natural number (also what a template literal prints), and
  \<^verbatim>\<open>s.padStart(n, c)\<close>.\<close>

fun String_nat :: "nat \<Rightarrow> string" where
  "String_nat n =
     (if n < 10 then [''0123456789'' ! n]
      else String_nat (n div 10) @ [''0123456789'' ! (n mod 10)])"

definition padStart :: "nat \<Rightarrow> char \<Rightarrow> string \<Rightarrow> string" where
  "padStart n c s = replicate (n - length s) c @ s"

section \<open>Passenger store calls\<close>

text \<open>\<^verbatim>\<open>db.select().from(passengersTable)\<close>, and the same with \<^verbatim>\<open>.limit(1)\<close>\<close>

definition select_passengers :: "env \<Rightarrow> store \<Rightarrow> exn + passenger list" where
  "select_passengers env s =
     (case env Select s of Some e \<Rightarrow> Inl e | None \<Rightarrow> Inr (passengersTable s))"

definition select_passengers_limit1 :: "env \<Rightarrow> store \<Rightarrow> exn + passenger list" where
  "select_passengers_limit1 env s =
     (case env Select s of Some e \<Rightarrow> Inl e | None \<Rightarrow> Inr (take 1 (passengersTable s)))"

text \<open>
  \<^verbatim>\<open>db.insert(passengersTable).values(passengerData)\<close>: the row gets a fresh id and the
  column default of \<^verbatim>\<open>created_at\<close>, the literal text \<^verbatim>\<open>CURRENT_TIMESTAMP\<close>. The default
  of \<^verbatim>\<open>status\<close> exists in one schema version only, whose tools always pass a status.
\<close>

definition new_passenger :: "passenger_values \<Rightarrow> int \<Rightarrow> passenger" where
  "new_passenger v i =
     passenger_values.extend v (passenger.fields i (Some ''CURRENT_TIMESTAMP''))"

definition insert_passenger :: "env \<Rightarrow> passenger_values \<Rightarrow> store \<Rightarrow> exn + store" where
  "insert_passenger env v s =
     (case env Insert s of
        Some e \<Rightarrow> Inl e
      | None \<Rightarrow>
          Inr (s\<lparr>passengersTable := passengersTable s @
                 [new_passenger v (fresh_id (map passenger_id (passengersTable s)))]\<rparr>))"

text \<open>\<^verbatim>\<open>db.delete(passengersTable)\<close>\<close>

definition delete_passengers :: "env \<Rightarrow> store \<Rightarrow> exn + store" where
  "delete_passengers env s =
     (case env Delete s of Some e \<Rightarrow> Inl e | None \<Rightarrow> Inr (s\<lparr>passengersTable := []\<rparr>))"

section \<open>getPassengers\<close>

text \<open>
  The input of \<^verbatim>\<open>GET_PASSENGERS\<close> (every field optional) and its result. The limit is
  a number (\<^verbatim>\<open>z.number()\<close>, which refuses \<^verbatim>\<open>NaN\<close>) that arrives as JSON, so it is
  finite; every finite double is a rational number, and the model lets the limit range over
  all rationals.
\<close>

record input_context =
  ctx_flightNumber :: "string option"
  ctx_departureCity :: "string option"
  ctx_arrivalCity :: "string option"
  ctx_ticketClass :: "string option"
  ctx_status :: "string option"
  ctx_limit :: "rat option"

record passengers_result =
  passengers :: "passenger list"
  totalCount :: nat
  message :: string

text \<open>Truthiness of an optional number: \<^verbatim>\<open>undefined\<close> and 0 are falsy.\<close>

definition truthy_num :: "rat option \<Rightarrow> bool" where
  "truthy_num v = (case v of None \<Rightarrow> False | Some n \<Rightarrow> n \<noteq> 0)"

text \<open>
  \<^verbatim>\<open>xs.slice(0, n)\<close>: the end is cut to an integer towards zero
  (\<^verbatim>\<open>ToIntegerOrInfinity\<close>), and a negative end counts from the end of the array.
\<close>

definition ToIntegerOrInfinity :: "rat \<Rightarrow> int" where
  "ToIntegerOrInfinity n = (if n < 0 then - \<lfloor>- n\<rfloor> else \<lfloor>n\<rfloor>)"

definition slice0 :: "'a list \<Rightarrow> rat \<Rightarrow> 'a list" where
  "slice0 xs n =
     (let relativeEnd = ToIntegerOrInfinity n
      in if relativeEnd < 0 then take (length xs - nat (- relativeEnd)) xs
         else take (nat relativeEnd) xs)"

definition filter_by ::
  "string option \<Rightarrow> (passenger \<Rightarrow> string option) \<Rightarrow> passenger list \<Rightarrow> passenger list" where
  "filter_by wanted column ps =
     (if truthy wanted then filter (\<lambda>p. column p = wanted) ps else ps)"

definition getPassengers_try :: "env \<Rightarrow> input_context \<Rightarrow> store \<Rightarrow> passengers_result outcome" where
  "getPassengers_try env ctx s =
     (case getDb env s of
        Inl e \<Rightarrow> (Inl e, s)
      | Inr _ \<Rightarrow>
          (case select_passengers env s of
             Inl e \<Rightarrow> (Inl e, s)
           | Inr all_rows \<Rightarrow>
               (let ps1 = filter_by (ctx_flightNumber ctx) flightNumber all_rows;
                    ps2 = filter_by (ctx_departureCity ctx) departureCity ps1;
                    ps3 = filter_by (ctx_arrivalCity ctx) arrivalCity ps2;
                    ps4 = filter_by (ctx_ticketClass ctx) ticketClass ps3;
                    ps5 = filter_by (ctx_status ctx) status ps4;
                    ps6 = (if truthy_num (ctx_limit ctx)
                           then slice0 ps5 (the (ctx_limit ctx)) else ps5)
                in (Inr \<lparr>passengers = ps6, totalCount = length ps6,
                          message = ''Retrieved '' @ String_nat (length ps6) @
                            '' passengers from database''\<rparr>, s))))"

definition getPassengers :: "env \<Rightarrow> input_context \<Rightarrow> store \<Rightarrow> passengers_result outcome" where
  "getPassengers env ctx s =
     (case getPassengers_try env ctx s of
        (Inl error, s') \<Rightarrow>
          (Inl (Error (''Error fetching passengers: '' @ error_message error)), s')
      | (Inr r, s') \<Rightarrow> (Inr r, s'))"

section \<open>clearDatabase\<close>

record cleared =
  success_clr :: bool
  deletedCount :: nat
  message_clr :: string

definition clearDatabase_try :: "env \<Rightarrow> store \<Rightarrow> cleared outcome" where
  "clearDatabase_try env s =
     (case getDb env s of
        Inl e \<Rightarrow> (Inl e, s)
      | Inr _ \<Rightarrow>
          (case select_passengers env s of
             Inl e \<Rightarrow> (Inl e, s)
           | Inr existingPassengers \<Rightarrow>
               (let deletedCount = length existingPassengers
                in if deletedCount = 0
                   then (Inr \<lparr>success_clr = True, deletedCount = 0,
                               message_clr = ''Database is already empty''\<rparr>, s)
                   else
                     (case delete_passengers env s of
                        Inl e \<Rightarrow> (Inl e, s)
                      | Inr s' \<Rightarrow>
                          (Inr \<lparr>success_clr = True, deletedCount = deletedCount,
                                 message_clr = ''Successfully cleared database. Deleted '' @
                                   String_nat deletedCount @ '' passengers.''\<rparr>, s')))))"

definition clearDatabase :: "env \<Rightarrow> store \<Rightarrow> cleared outcome" where
  "clearDatabase env s =
     (case clearDatabase_try env s of
        (Inl error, s') \<Rightarrow>
          (Inr \<lparr>success_clr = False, deletedCount = 0,
                 message_clr = ''Error clearing database: '' @ error_message error\<rparr>, s')
      | (Inr r, s') \<Rightarrow> (Inr r, s'))"

section \<open>CSV import\<close>

text \<open>
  The import tool and the test-data tool of \<^verbatim>\<open>tools.ts\<close> share the same loop: a data
  line that is not blank is split at commas and its fifteen positions become a row.
\<close>

definition passengerData :: "string list \<Rightarrow> passenger_values" where
  "passengerData vals =
     \<lparr>firstName = Some (or_str (at_index vals 0) ''''),
      lastName = Some (or_str (at_index vals 1) ''''),
      email = Some (or_str (at_index vals 2) ''''),
      phone = or_null (at_index vals 3),
      passportNumber = or_null (at_index vals 4),
      nationality = or_null (at_index vals 5),
      dateOfBirth = or_null (at_index vals 6),
      seatNumber = or_null (at_index vals 7),
      flightNumber = Some (or_str (at_index vals 8) ''''),
      departureCity = Some (or_str (at_index vals 9) ''''),
      arrivalCity = Some (or_str (at_index vals 10) ''''),
      departureDate = Some (or_str (at_index vals 11) ''''),
      ticketClass = or_null (at_index vals 12),
      price = or_null (at_index vals 13),
      status = Some (or_str (at_index vals 14) ''confirmed''),
      distance = None\<rparr>"

fun import_lines :: "env \<Rightarrow> string list \<Rightarrow> nat \<Rightarrow> store \<Rightarrow> (exn + nat) \<times> store" where
  "import_lines env [] importedCount s = (Inr importedCount, s)"
| "import_lines env (line # dataLines) importedCount s =
     (if truthy (Some (trim line))
      then (case insert_passenger env (passengerData (split (CHR '','') line)) s of
              Inl e \<Rightarrow> (Inl e, s)
            | Inr s' \<Rightarrow> import_lines env dataLines (importedCount + 1) s')
      else import_lines env dataLines importedCount s)"

record imported =
  success_imp :: bool
  importedCount :: nat
  message_imp :: string

definition importPassengersFromCSV_try :: "env \<Rightarrow> string \<Rightarrow> store \<Rightarrow> imported outcome" where
  "importPassengersFromCSV_try env csvContent s =
     (case getDb env s of
        Inl e \<Rightarrow> (Inl e, s)
      | Inr _ \<Rightarrow>
          (let lines = split (CHR 0x0A) (trim csvContent);
               dataLines = drop 1 lines
           in case import_lines env dataLines 0 s of
                (Inl e, s') \<Rightarrow> (Inl e, s')
              | (Inr n, s') \<Rightarrow>
                  (Inr \<lparr>success_imp = True, importedCount = n,
                         message_imp = ''Successfully imported '' @ String_nat n @
                           '' passengers from CSV''\<rparr>, s')))"

definition importPassengersFromCSV :: "env \<Rightarrow> string \<Rightarrow> store \<Rightarrow> imported outcome" where
  "importPassengersFromCSV env csvContent s =
     (case importPassengersFromCSV_try env csvContent s of
        (Inl error, s') \<Rightarrow>
          (Inr \<lparr>success_imp = False, importedCount = 0,
                 message_imp = ''Error importing CSV: '' @ error_message error\<rparr>, s')
      | (Inr r, s') \<Rightarrow> (Inr r, s'))"

section \<open>populateTestData\<close>

text \<open>
  The tool of \<^verbatim>\<open>tools.ts\<close>. Its sample CSV text is a constant of the source; here it is
  the parameter \<open>csvData\<close>, so that what is proved holds for that constant as for any
  other text.
\<close>

definition populateTestData_try :: "string \<Rightarrow> env \<Rightarrow> store \<Rightarrow> imported outcome" where
  "populateTestData_try csvData env s =
     (case getDb env s of
        Inl e \<Rightarrow> (Inl e, s)
      | Inr _ \<Rightarrow>
          (case select_passengers_limit1 env s of
             Inl e \<Rightarrow> (Inl e, s)
           | Inr existingPassengers \<Rightarrow>
               if length existingPassengers > 0
               then (Inr \<lparr>success_imp = True, importedCount = 0,
                           message_imp = ''Database already contains passenger data. Use GET_PASSENGERS to retrieve data.''\<rparr>, s)
               else
                 (let lines = split (CHR 0x0A) (trim csvData);
                      dataLines = drop 1 lines
                  in case import_lines env dataLines 0 s of
                       (Inl e, s') \<Rightarrow> (Inl e, s')
                     | (Inr n, s') \<Rightarrow>
                         (Inr \<lparr>success_imp = True, importedCount = n,
                                message_imp = ''Successfully populated database with '' @
                                  String_nat n @ '' test passengers''\<rparr>, s'))))"

definition populateTestData :: "string \<Rightarrow> env \<Rightarrow> store \<Rightarrow> imported outcome" where
  "populateTestData csvData env s =
     (case populateTestData_try csvData env s of
        (Inl error, s') \<Rightarrow>
          (Inr \<lparr>success_imp = False, importedCount = 0,
                 message_imp = ''Error populating test data: '' @ error_message error\<rparr>, s')
      | (Inr r, s') \<Rightarrow> (Inr r, s'))"

text \<open>
  The tool of the same name in the tools file that follows the schema in
  \<^verbatim>\<open>schema.ts\<close>, with its helpers \<^verbatim>\<open>hasExistingData\<close>, \<^verbatim>\<open>parseCSVContent\<close> and
  \<^verbatim>\<open>insertPassengers\<close>. The text that \<^verbatim>\<open>getCSVContent\<close> returns is the parameter
  \<open>csvContent\<close>.
\<close>

definition hasExistingData :: "env \<Rightarrow> store \<Rightarrow> exn + bool" where
  "hasExistingData env s =
     (case select_passengers_limit1 env s of
        Inl e \<Rightarrow> Inl e
      | Inr existingPassengers \<Rightarrow> Inr (length existingPassengers > 0))"

record csv_passenger =
  csv_firstName :: string
  csv_lastName :: string
  csv_email :: string
  csv_nationality :: string
  csv_dateOfBirth :: string
  csv_departureCity :: string
  csv_arrivalCity :: string
  csv_departureDate :: string
  csv_distance :: string
  csv_flightCost :: string

definition csv_passenger_of :: "string list \<Rightarrow> csv_passenger" where
  "csv_passenger_of vals =
     \<lparr>csv_firstName = or_str (at_index vals 0) '''',
      csv_lastName = or_str (at_index vals 1) '''',
      csv_email = or_str (at_index vals 2) '''',
      csv_nationality = or_str (at_index vals 3) '''',
      csv_dateOfBirth = or_str (at_index vals 4) '''',
      csv_departureCity = or_str (at_index vals 5) '''',
      csv_arrivalCity = or_str (at_index vals 6) '''',
      csv_departureDate = or_str (at_index vals 7) '''',
      csv_distance = or_str (at_index vals 8) '''',
      csv_flightCost = or_str (at_index vals 9) ''''\<rparr>"

definition parseCSVContent :: "string \<Rightarrow> csv_passenger list" where
  "parseCSVContent csvContent =
     (let lines = split (CHR 0x0A) (trim csvContent);
          dataLines = drop 1 lines
      in map (\<lambda>line. csv_passenger_of (split (CHR '','') line))
           (filter (\<lambda>line. truthy (Some (trim line))) dataLines))"

definition passengerData_of_csv :: "nat \<Rightarrow> csv_passenger \<Rightarrow> passenger_values" where
  "passengerData_of_csv k p =
     \<lparr>firstName = Some (csv_firstName p),
      lastName = Some (csv_lastName p),
      email = Some (csv_email p),
      phone = None,
      passportNumber = None,
      nationality = Some (csv_nationality p),
      dateOfBirth = Some (csv_dateOfBirth p),
      seatNumber = None,
      flightNumber = Some (''BR'' @ padStart 4 (CHR ''0'') (String_nat (k + 1))),
      departureCity = Some (csv_departureCity p),
      arrivalCity = Some (csv_arrivalCity p),
      departureDate = Some (csv_departureDate p),
      ticketClass = None,
      price = Some (csv_flightCost p),
      status = None,
      distance = Some (csv_distance p)\<rparr>"

fun insertPassengers ::
  "env \<Rightarrow> csv_passenger list \<Rightarrow> nat \<Rightarrow> store \<Rightarrow> (exn + nat) \<times> store" where
  "insertPassengers env [] k s = (Inr k, s)"
| "insertPassengers env (p # ps) k s =
     (case insert_passenger env (passengerData_of_csv k p) s of
        Inl e \<Rightarrow> (Inl e, s)
      | Inr s' \<Rightarrow> insertPassengers env ps (k + 1) s')"

definition populateTestData_alt_try :: "string \<Rightarrow> env \<Rightarrow> store \<Rightarrow> imported outcome" where
  "populateTestData_alt_try csvContent env s =
     (case getDb env s of
        Inl e \<Rightarrow> (Inl e, s)
      | Inr _ \<Rightarrow>
          (case hasExistingData env s of
             Inl e \<Rightarrow> (Inl e, s)
           | Inr existing \<Rightarrow>
               if existing
               then (Inr \<lparr>success_imp = True, importedCount = 0,
                           message_imp = ''Database already contains passenger data. Use CLEAR_DATABASE to clear it first, then POPULATE_TEST_DATA to populate again.''\<rparr>, s)
               else
                 (case insertPassengers env (parseCSVContent csvContent) 0 s of
                    (Inl e, s') \<Rightarrow> (Inl e, s')
                  | (Inr n, s') \<Rightarrow>
                      (Inr \<lparr>success_imp = True, importedCount = n,
                             message_imp = ''Successfully populated database with '' @
                               String_nat n @ '' test passengers from hardcoded CSV data''\<rparr>, s'))))"

definition populateTestData_alt :: "string \<Rightarrow> env \<Rightarrow> store \<Rightarrow> imported outcome" where
  "populateTestData_alt csvContent env s =
     (case populateTestData_alt_try csvContent env s of
        (Inl error, s') \<Rightarrow>
          (Inr \<lparr>success_imp = False, importedCount = 0,
                 message_imp = ''Error populating test data: '' @ error_message error\<rparr>, s')
      | (Inr r, s') \<Rightarrow> (Inr r, s'))"

section \<open>Equality filters as a predicate\<close>

text \<open>
  A row satisfies an equality filter when the filter is absent or empty, or when the
  column holds exactly the text asked for.
\<close>

definition matches :: "string option \<Rightarrow> string option \<Rightarrow> bool" where
  "matches wanted v = (truthy wanted \<longrightarrow> v = wanted)"

definition satisfies_filters :: "input_context \<Rightarrow> passenger \<Rightarrow> bool" where
  "satisfies_filters ctx p =
     (matches (ctx_flightNumber ctx) (flightNumber p) \<and>
      matches (ctx_departureCity ctx) (departureCity p) \<and>
      matches (ctx_arrivalCity ctx) (arrivalCity p) \<and>
      matches (ctx_ticketClass ctx) (ticketClass p) \<and>
      matches (ctx_status ctx) (status p))"

text \<open>
  Read to the letter, a filter is supplied as soon as it is present in the input, the empty
  string included.
\<close>

definition holds_if_supplied :: "string option \<Rightarrow> string option \<Rightarrow> bool" where
  "holds_if_supplied wanted v = (case wanted of None \<Rightarrow> True | Some w \<Rightarrow> v = Some w)"

text \<open>Rows and inputs for concrete instances.\<close>

definition sample_passenger :: "int \<Rightarrow> string \<Rightarrow> passenger" where
  "sample_passenger i flight =
     \<lparr>firstName = Some ''Ana'', lastName = Some ''Costa'', email = Some ''ana@email.com'',
      phone = None, passportNumber = None, nationality = None, dateOfBirth = None,
      seatNumber = None, flightNumber = Some flight, departureCity = Some ''Recife'',
      arrivalCity = Some ''Natal'', departureDate = Some ''2024-01-15'',
      ticketClass = Some ''economy'', price = Some ''2500.00'', status = Some ''confirmed'',
      distance = None, passenger_id = i, createdAt = Some ''CURRENT_TIMESTAMP''\<rparr>"

definition no_filters :: "rat option \<Rightarrow> input_context" where
  "no_filters limit_in =
     \<lparr>ctx_flightNumber = None, ctx_departureCity = None, ctx_arrivalCity = None,
      ctx_ticketClass = None, ctx_status = None, ctx_limit = limit_in\<rparr>"

definition sample_store :: store where
  "sample_store =
     \<lparr>todosTable = [],
      passengersTable = [sample_passenger 1 ''LA1234'', sample_passenger 2 ''LA1234'',
                         sample_passenger 3 ''BR0001'']\<rparr>"

text \<open>Column \<open>i\<close> of a split line is missing when the line has no such position or the
  position is empty.\<close>

definition missing :: "string list \<Rightarrow> nat \<Rightarrow> bool" where
  "missing vals i = (at_index vals i = None \<or> at_index vals i = Some [])"

text \<open>The data lines of a CSV text: the lines of the trimmed text after the first.\<close>

definition dataLines_of :: "string \<Rightarrow> string list" where
  "dataLines_of csv = drop 1 (split (CHR 0x0A) (trim csv))"

definition empty_store :: store where
  "empty_store = \<lparr>todosTable = [], passengersTable = []\<rparr>"

section \<open>Numbers\<close>

text \<open>
  A number of the language is a binary64 double: \<^verbatim>\<open>NaN\<close>, one of the two infinities, or a
  finite value, which is a rational number. The two zeros are not told apart (they print
  and compare alike). \<open>binary64 x\<close> is the double nearest to the rational \<open>x\<close>, ties going
  to the even significand: 53 significant bits, the smallest quantum \<open>2^-1074\<close>, and infinity
  from \<open>2^1024\<close> on.
\<close>

datatype number = Num rat | PosInfinity | NegInfinity | NaN

text \<open>The number of binary digits of a positive integer.\<close>

function bit_length :: "int \<Rightarrow> nat" where
  "bit_length n = (if n \<le> 0 then 0 else Suc (bit_length (n div 2)))"
  by pat_completeness auto
termination
  by (relation "measure nat") auto

declare bit_length.simps [simp del]

definition pow2 :: "int \<Rightarrow> rat" where
  "pow2 e = (if 0 \<le> e then 2 ^ nat e else 1 / 2 ^ nat (- e))"

text \<open>For \<open>a > 0\<close>, the exponent \<open>e\<close> with \<open>2^e \<le> a < 2^(e+1)\<close>.\<close>

definition exponent_of :: "rat \<Rightarrow> int" where
  "exponent_of a =
     (if 1 \<le> a then int (bit_length \<lfloor>a\<rfloor>) - 1
      else - int (bit_length (\<lceil>1 / a\<rceil> - 1)))"

definition round_half_even :: "rat \<Rightarrow> int" where
  "round_half_even r =
     (let f = \<lfloor>r\<rfloor>; d = r - of_int f
      in if d < 1 / 2 then f
         else if 1 / 2 < d then f + 1
         else if even f then f else f + 1)"

definition binary64 :: "rat \<Rightarrow> number" where
  "binary64 x =
     (if x = 0 then Num 0
      else
        (let a = \<bar>x\<bar>;
             e = max (exponent_of a) (- 1022);
             q = pow2 (e - 52);
             y = of_int (round_half_even (a / q)) * q
         in if pow2 1024 \<le> y then (if 0 < x then PosInfinity else NegInfinity)
            else Num (if 0 < x then y else - y)))"

definition isNaN :: "number \<Rightarrow> bool" where
  "isNaN x = (x = NaN)"

text \<open>\<^verbatim>\<open>x + y\<close>\<close>

definition js_add :: "number \<Rightarrow> number \<Rightarrow> number" where
  "js_add x y =
     (case x of
        NaN \<Rightarrow> NaN
      | PosInfinity \<Rightarrow> (case y of NaN \<Rightarrow> NaN | NegInfinity \<Rightarrow> NaN | _ \<Rightarrow> PosInfinity)
      | NegInfinity \<Rightarrow> (case y of NaN \<Rightarrow> NaN | PosInfinity \<Rightarrow> NaN | _ \<Rightarrow> NegInfinity)
      | Num a \<Rightarrow> (case y of Num b \<Rightarrow> binary64 (a + b) | _ \<Rightarrow> y))"

text \<open>
  \<^verbatim>\<open>x / d\<close> and \<^verbatim>\<open>x * d\<close> for a finite \<open>d > 0\<close> that is itself a double: the tool divides
  by its count of prices and by 100, and multiplies by 100.
\<close>

definition js_divide_by :: "number \<Rightarrow> rat \<Rightarrow> number" where
  "js_divide_by x d = (case x of Num a \<Rightarrow> binary64 (a / d) | _ \<Rightarrow> x)"

definition js_times :: "number \<Rightarrow> rat \<Rightarrow> number" where
  "js_times x d = (case x of Num a \<Rightarrow> binary64 (a * d) | _ \<Rightarrow> x)"

text \<open>\<^verbatim>\<open>Math.round(x)\<close>: the nearest integer, a tie going up. The result is a double
  whenever \<open>x\<close> is one.\<close>

definition Math_round :: "number \<Rightarrow> number" where
  "Math_round x = (case x of Num a \<Rightarrow> Num (of_int \<lfloor>a + 1 / 2\<rfloor>) | _ \<Rightarrow> x)"

text \<open>
  \<^verbatim>\<open>parseFloat(s)\<close>: leading white space is dropped, then the longest prefix that is a
  decimal literal is read (an optional sign; then \<^verbatim>\<open>Infinity\<close>, or digits with an
  optional fraction, or a fraction alone; then an optional exponent, which counts only
  with at least one digit) and what follows is ignored; without such a prefix the result
  is \<^verbatim>\<open>NaN\<close>. The value is taken as correctly rounded.
\<close>

definition is_digit :: "char \<Rightarrow> bool" where
  "is_digit c = (48 \<le> (of_char c :: nat) \<and> (of_char c :: nat) \<le> 57)"

definition digits_value :: "string \<Rightarrow> int" where
  "digits_value ds = foldl (\<lambda>n c. 10 * n + (of_char c - 48)) 0 ds"

definition pow10 :: "int \<Rightarrow> rat" where
  "pow10 e = (if 0 \<le> e then 10 ^ nat e else 1 / 10 ^ nat (- e))"

definition exponent_part :: "string \<Rightarrow> int" where
  "exponent_part r =
     (case r of
        [] \<Rightarrow> 0
      | c # r1 \<Rightarrow>
          if c = CHR ''e'' \<or> c = CHR ''E'' then
            (case r1 of
               [] \<Rightarrow> 0
             | d # r2 \<Rightarrow>
                 if d = CHR ''+'' then digits_value (takeWhile is_digit r2)
                 else if d = CHR ''-'' then - digits_value (takeWhile is_digit r2)
                 else digits_value (takeWhile is_digit r1))
          else 0)"

datatype literal = NoLiteral | InfinityLiteral | Decimal rat

definition StrUnsignedDecimalLiteral :: "string \<Rightarrow> literal" where
  "StrUnsignedDecimalLiteral s =
     (if take 8 s = ''Infinity'' then InfinityLiteral
      else
        (let ip = takeWhile is_digit s; r1 = dropWhile is_digit s
         in case r1 of
              [] \<Rightarrow> if ip = [] then NoLiteral else Decimal (of_int (digits_value ip))
            | c # r2 \<Rightarrow>
                if c = CHR ''.'' then
                  (let fp = takeWhile is_digit r2; r3 = dropWhile is_digit r2
                   in if ip = [] \<and> fp = [] then NoLiteral
                      else Decimal ((of_int (digits_value ip) +
                                       of_int (digits_value fp) / 10 ^ length fp) *
                                     pow10 (exponent_part r3)))
                else if ip = [] then NoLiteral
                else Decimal (of_int (digits_value ip) * pow10 (exponent_part r1))))"

definition parseFloat :: "string \<Rightarrow> number" where
  "parseFloat s =
     (case dropWhile isWhiteSpace s of
        [] \<Rightarrow> NaN
      | c # r \<Rightarrow>
          if c = CHR ''-'' then
            (case StrUnsignedDecimalLiteral r of
               NoLiteral \<Rightarrow> NaN
             | InfinityLiteral \<Rightarrow> NegInfinity
             | Decimal v \<Rightarrow> binary64 (- v))
          else
            (case StrUnsignedDecimalLiteral (if c = CHR ''+'' then r else c # r) of
               NoLiteral \<Rightarrow> NaN
             | InfinityLiteral \<Rightarrow> PosInfinity
             | Decimal v \<Rightarrow> binary64 v))"

section \<open>getPassengerStats\<close>

text \<open>
  The three grouping tables are plain objects created as \<^verbatim>\<open>{}\<close>. A table is modelled by
  its own properties; a property holds a count or, once the update has concatenated
  strings, a text that is not a number. Reading a name that is not an own property finds
  what \<^verbatim>\<open>Object.prototype\<close> has under that name, a function or an object; and writing a
  text to \<^verbatim>\<open>__proto__\<close> changes nothing.
\<close>

datatype tally = Count nat | Text

type_synonym table = "string \<Rightarrow> tally option"

definition Object_prototype_names :: "string list" where
  "Object_prototype_names =
     [''constructor'', ''__defineGetter__'', ''__defineSetter__'', ''hasOwnProperty'',
      ''__lookupGetter__'', ''__lookupSetter__'', ''isPrototypeOf'',
      ''propertyIsEnumerable'', ''toString'', ''valueOf'', ''__proto__'',
      ''toLocaleString'']"

text \<open>\<^verbatim>\<open>obj[k] = (obj[k] || 0) + 1\<close>\<close>

definition bump :: "table \<Rightarrow> string \<Rightarrow> table" where
  "bump obj k =
     (let v = (case obj k of
                 Some (Count n) \<Rightarrow> Count (n + 1)
               | Some Text \<Rightarrow> Text
               | None \<Rightarrow> if k \<in> set Object_prototype_names then Text else Count 1)
      in if k = ''__proto__'' then obj else obj(k \<mapsto> v))"

record accumulators =
  acc_byTicketClass :: table
  acc_byStatus :: table
  acc_byFlight :: table
  totalPrice :: number
  validPrices :: nat

text \<open>One round of \<^verbatim>\<open>for (const passenger of allPassengers)\<close>.\<close>

definition stats_step :: "passenger \<Rightarrow> accumulators \<Rightarrow> accumulators" where
  "stats_step passenger a =
     (let a1 = a\<lparr>acc_byTicketClass :=
                   bump (acc_byTicketClass a) (or_str (ticketClass passenger) ''unknown''),
                 acc_byStatus := bump (acc_byStatus a) (or_str (status passenger) ''unknown''),
                 acc_byFlight :=
                   bump (acc_byFlight a) (or_str (flightNumber passenger) ''unknown'')\<rparr>
      in case price passenger of
           None \<Rightarrow> a1
         | Some text \<Rightarrow>
             if text = [] then a1
             else if \<not> isNaN (parseFloat text)
             then a1\<lparr>totalPrice := js_add (totalPrice a1) (parseFloat text),
                     validPrices := validPrices a1 + 1\<rparr>
             else a1)"

fun stats_loop :: "passenger list \<Rightarrow> accumulators \<Rightarrow> accumulators" where
  "stats_loop [] a = a"
| "stats_loop (passenger # rest) a = stats_loop rest (stats_step passenger a)"

record stats =
  totalPassengers :: nat
  byTicketClass :: table
  byStatus :: table
  byFlight :: table
  averagePrice :: number
  message_stats :: string

definition getPassengerStats_try :: "env \<Rightarrow> store \<Rightarrow> stats outcome" where
  "getPassengerStats_try env s =
     (case getDb env s of
        Inl e \<Rightarrow> (Inl e, s)
      | Inr _ \<Rightarrow>
          (case select_passengers env s of
             Inl e \<Rightarrow> (Inl e, s)
           | Inr allPassengers \<Rightarrow>
               if length allPassengers = 0
               then (Inr \<lparr>totalPassengers = 0, byTicketClass = Map.empty,
                           byStatus = Map.empty, byFlight = Map.empty, averagePrice = Num 0,
                           message_stats = ''No passengers found in database''\<rparr>, s)
               else
                 (let a = stats_loop allPassengers
                            \<lparr>acc_byTicketClass = Map.empty, acc_byStatus = Map.empty,
                             acc_byFlight = Map.empty, totalPrice = Num 0, validPrices = 0\<rparr>;
                      average = (if validPrices a > 0
                                 then js_divide_by (totalPrice a) (of_nat (validPrices a))
                                 else Num 0)
                  in (Inr \<lparr>totalPassengers = length allPassengers,
                            byTicketClass = acc_byTicketClass a,
                            byStatus = acc_byStatus a,
                            byFlight = acc_byFlight a,
                            averagePrice = js_divide_by (Math_round (js_times average 100)) 100,
                            message_stats = ''Statistics calculated for '' @
                              String_nat (length allPassengers) @ '' passengers''\<rparr>, s))))"

definition getPassengerStats :: "env \<Rightarrow> store \<Rightarrow> stats outcome" where
  "getPassengerStats env s =
     (case getPassengerStats_try env s of
        (Inl error, s') \<Rightarrow>
          (Inl (Error (''Error calculating passenger stats: '' @ error_message error)), s')
      | (Inr r, s') \<Rightarrow> (Inr r, s'))"

text \<open>
  The prices that count: those that are present, not empty, and from which
  \<^verbatim>\<open>parseFloat\<close> reads a number; and the entry a grouping table should hold for a key
  that occurs \<open>n\<close> times.
\<close>

definition counted_prices :: "passenger list \<Rightarrow> number list" where
  "counted_prices ps =
     List.map_filter
       (\<lambda>p. case price p of
              None \<Rightarrow> None
            | Some text \<Rightarrow>
                if text = [] \<or> isNaN (parseFloat text) then None
                else Some (parseFloat text))
       ps"

definition entry_for :: "nat \<Rightarrow> tally option" where
  "entry_for n = (if n = 0 then None else Some (Count n))"

definition priced_store :: "string option list \<Rightarrow> store" where
  "priced_store prices =
     \<lparr>todosTable = [],
      passengersTable =
        map (\<lambda>(i, p). (sample_passenger (int i + 1) ''LA1234'')\<lparr>price := p\<rparr>)
          (enumerate 0 prices)\<rparr>"

section \<open>Properties of the todo tools\<close>

subsection \<open>Auxiliary facts about rows and updates\<close>

lemma filter_key_distinct:
  "distinct (map f xs) \<Longrightarrow> t \<in> set xs \<Longrightarrow> filter (\<lambda>r. f r = f t) xs = [t]"
proof (induction xs)
  case Nil
  then show ?case by simp
next
  case (Cons x xs)
  show ?case
  proof (cases "x = t")
    case True
    with Cons.prems have "f t \<notin> f ` set xs" by simp
    then have "\<forall>r\<in>set xs. f r \<noteq> f t" by (metis imageI)
    then have "filter (\<lambda>r. f r = f t) xs = []" by (simp add: filter_empty_conv)
    with True show ?thesis by simp
  next
    case False
    with Cons.prems have "t \<in> set xs" "f x \<noteq> f t" by auto
    with Cons show ?thesis by simp
  qed
qed

lemma todo_id_set_completed [simp]: "todo_id (set_completed i c r) = todo_id r"
  by (simp add: set_completed_def)

lemma title_set_completed [simp]: "title (set_completed i c r) = title r"
  by (simp add: set_completed_def)

lemma filter_set_completed:
  "filter (\<lambda>r. todo_id r = i) (map (set_completed i c) xs) =
   map (\<lambda>r. r\<lparr>completed := Some c\<rparr>) (filter (\<lambda>r. todo_id r = i) xs)"
  by (induction xs) (auto simp: set_completed_def)

lemma set_completed_twice:
  "set_completed i c2 (set_completed i c1 r) = set_completed i c2 r"
  by (simp add: set_completed_def)

lemma set_completed_same:
  "completed t = Some c \<Longrightarrow> distinct (map todo_id xs) \<Longrightarrow> t \<in> set xs \<Longrightarrow> map (set_completed (todo_id t) c) xs = xs"
proof -
  assume c: "completed t = Some c" and d: "distinct (map todo_id xs)" and t: "t \<in> set xs"
  have "set_completed (todo_id t) c r = r" if "r \<in> set xs" for r
  proof (cases "todo_id r = todo_id t")
    case True
    from d that t True have "r = t" by (meson distinct_map inj_onD)
    with c show ?thesis by (simp add: set_completed_def)
  next
    case False
    then show ?thesis by (simp add: set_completed_def)
  qed
  then show ?thesis by (simp add: map_idI)
qed

text \<open>A toggle of a stored row, when no store call throws.\<close>

lemma toggleTodo_present:
  assumes d: "distinct (map todo_id (todosTable s))" and t: "t \<in> set (todosTable s)"
    and ok: "env GetDb s = None" "env Select s = None" "env Update s = None"
  shows "toggleTodo env (todo_id t) s =
    (Inr \<lparr>id_out = todo_id t, title_out = title t, completed_out = (completed t \<noteq> Some 1)\<rparr>,
     s\<lparr>todosTable := map (set_completed (todo_id t) (if completed t = Some 1 then 0 else 1)) (todosTable s)\<rparr>)"
proof -
  have f: "filter (\<lambda>r. todo_id r = todo_id t) (todosTable s) = [t]"
    using filter_key_distinct [OF d t] .
  show ?thesis
    by (simp add: toggleTodo_def getDb_def select_todo_where_id_def update_todo_completed_def select_todos_def ok f filter_set_completed Let_def)
qed

text \<open>Whatever the store calls do, a toggle leaves the store alone or rewrites the
  \<^verbatim>\<open>completed\<close> column of the rows with the given id.\<close>

lemma toggleTodo_store:
  "snd (toggleTodo env i s) = s \<or>
   (\<exists>c. snd (toggleTodo env i s) = s\<lparr>todosTable := map (set_completed i c) (todosTable s)\<rparr>)"
  by (auto simp: toggleTodo_def getDb_def select_todo_where_id_def update_todo_completed_def
      Let_def split: option.splits list.splits)

lemma toggleTodo_tables:
  "passengersTable (snd (toggleTodo env i s)) = passengersTable s \<and>
   (\<exists>c. todosTable (snd (toggleTodo env i s)) = map (set_completed i c) (todosTable s) \<or>
        todosTable (snd (toggleTodo env i s)) = todosTable s)"
  using toggleTodo_store [of env i s] by auto

lemma toggleTodo_returns:
  assumes "t \<in> set (todosTable s)"
    and "env GetDb s = None" "env Select s = None" "env Update s = None"
  shows "\<exists>v. fst (toggleTodo env (todo_id t) s) = Inr v \<and> id_out v = todo_id t"
proof -
  from assms(1) have "filter (\<lambda>r. todo_id r = todo_id t) (todosTable s) \<noteq> []"
    by (auto simp: filter_empty_conv)
  then obtain u us where u: "filter (\<lambda>r. todo_id r = todo_id t) (todosTable s) = u # us"
    by (cases "filter (\<lambda>r. todo_id r = todo_id t) (todosTable s)") auto
  then have "u \<in> set (filter (\<lambda>r. todo_id r = todo_id t) (todosTable s))" by simp
  then have "todo_id u = todo_id t" by simp
  then show ?thesis
    by (simp add: toggleTodo_def getDb_def select_todo_where_id_def update_todo_completed_def
        assms(2-) u filter_set_completed Let_def)
qed

subsection \<open>generateTodo\<close>

text \<open>
  C2. When the text-generation collaborator answers with an empty title (the empty
  string), \<^verbatim>\<open>generateTodo\<close> throws and inserts nothing: the store is the one it started
  from whatever the store calls do, and as soon as \<^verbatim>\<open>getDb\<close> has gone through (it is awaited
  before the collaborator is asked) the value thrown is the generation error.
\<close>

theorem generateTodo_empty_title:
  "snd (generateTodo env (Inr (Object (Str ''''))) s) = s \<and>
   isl (fst (generateTodo env (Inr (Object (Str ''''))) s)) \<and>
   (env GetDb s = None \<longrightarrow>
      fst (generateTodo env (Inr (Object (Str ''''))) s) = Inl GenerationError)"
  by (simp add: generateTodo_def getDb_def String_def object_title_def truthy_def
      split: option.splits)

theorem generateTodo_empty_title_witness:
  "healthy GetDb \<lparr>todosTable = [\<lparr>todo_id = 1, title = Some ''x'', completed = Some 0\<rparr>], passengersTable = []\<rparr> = None \<and>
   generateTodo healthy (Inr (Object (Str '''')))
      \<lparr>todosTable = [\<lparr>todo_id = 1, title = Some ''x'', completed = Some 0\<rparr>], passengersTable = []\<rparr> =
     (Inl (Error ''Failed to generate todo''),
      \<lparr>todosTable = [\<lparr>todo_id = 1, title = Some ''x'', completed = Some 0\<rparr>], passengersTable = []\<rparr>)"
  using generateTodo_empty_title [of healthy
      "\<lparr>todosTable = [\<lparr>todo_id = 1, title = Some ''x'', completed = Some 0\<rparr>], passengersTable = []\<rparr>"]
  by (simp add: healthy_def GenerationError_def prod_eq_iff)

text \<open>
  A missing title is not an empty one: \<^verbatim>\<open>String(undefined)\<close> is the seven-letter string
  \<^verbatim>\<open>"undefined"\<close>, which is truthy, so an answer without an object is stored under that
  title.
\<close>

lemma generateTodo_missing_title:
  "generateTodo healthy (Inr NoObject) \<lparr>todosTable = [], passengersTable = []\<rparr> =
     (Inr \<lparr>id_out = 1, title_out = Some ''undefined'', completed_out = False\<rparr>,
      \<lparr>todosTable = [\<lparr>todo_id = 1, title = Some ''undefined'', completed = Some 0\<rparr>],
       passengersTable = []\<rparr>)"
  by (simp add: generateTodo_def getDb_def healthy_def String_def object_title_def truthy_def
      insert_todo_def fresh_id_def Let_def)

subsection \<open>deleteTodo\<close>

text \<open>
  C8. For an id that no row of the todos table carries, \<^verbatim>\<open>deleteTodo\<close> never returns a
  success result and leaves the store unchanged, whatever the store calls do; when
  \<^verbatim>\<open>getDb\<close> and the select go through, what it throws is NotFound.
\<close>

theorem deleteTodo_absent:
  assumes "i \<notin> todo_id ` set (todosTable s)"
  shows "snd (deleteTodo env i s) = s \<and>
         isl (fst (deleteTodo env i s)) \<and>
         (env GetDb s = None \<and> env Select s = None \<longrightarrow>
            fst (deleteTodo env i s) = Inl NotFound)"
proof -
  from assms have "\<forall>r\<in>set (todosTable s). todo_id r \<noteq> i" by (metis imageI)
  then have "filter (\<lambda>r. todo_id r = i) (todosTable s) = []"
    by (simp add: filter_empty_conv)
  then show ?thesis
    by (simp add: deleteTodo_def getDb_def select_todo_where_id_def split: option.splits)
qed

theorem deleteTodo_absent_witness:
  "2 \<notin> todo_id ` set (todosTable \<lparr>todosTable = [\<lparr>todo_id = 1, title = Some ''x'', completed = Some 0\<rparr>], passengersTable = []\<rparr>) \<and>
   deleteTodo healthy 2
      \<lparr>todosTable = [\<lparr>todo_id = 1, title = Some ''x'', completed = Some 0\<rparr>], passengersTable = []\<rparr> =
     (Inl (Error ''Todo not found''),
      \<lparr>todosTable = [\<lparr>todo_id = 1, title = Some ''x'', completed = Some 0\<rparr>], passengersTable = []\<rparr>)"
  using deleteTodo_absent [of 2
      "\<lparr>todosTable = [\<lparr>todo_id = 1, title = Some ''x'', completed = Some 0\<rparr>], passengersTable = []\<rparr>" healthy]
  by (simp add: healthy_def NotFound_def prod_eq_iff)

subsection \<open>toggleTodo\<close>

text \<open>
  C4. Ids are unique (\<^verbatim>\<open>id\<close> is the primary key). For a stored todo \<open>t\<close>, the first toggle
  returns the row with \<^verbatim>\<open>completed\<close> negated and the second returns it with the original
  value; after both, \<^verbatim>\<open>listTodos\<close> shows what it showed before, and when the stored
  integer was 0 or 1 the store itself is the original one.
\<close>

theorem toggleTodo_twice:
  assumes d: "distinct (map todo_id (todosTable s))" and t: "t \<in> set (todosTable s)"
  shows "fst (toggleTodo healthy (todo_id t) s) =
           Inr \<lparr>id_out = todo_id t, title_out = title t, completed_out = (completed t \<noteq> Some 1)\<rparr> \<and>
         fst (toggleTodo healthy (todo_id t) (snd (toggleTodo healthy (todo_id t) s))) =
           Inr \<lparr>id_out = todo_id t, title_out = title t, completed_out = (completed t = Some 1)\<rparr> \<and>
         fst (listTodos healthy (snd (toggleTodo healthy (todo_id t) (snd (toggleTodo healthy (todo_id t) s))))) =
           fst (listTodos healthy s) \<and>
         (completed t = Some 0 \<or> completed t = Some 1 \<longrightarrow>
            snd (toggleTodo healthy (todo_id t) (snd (toggleTodo healthy (todo_id t) s))) = s)"
proof -
  define i where "i = todo_id t"
  define c1 :: int where "c1 = (if completed t = Some 1 then 0 else 1)"
  define c2 :: int where "c2 = (if completed t = Some 1 then 1 else 0)"
  define s1 where "s1 = s\<lparr>todosTable := map (set_completed i c1) (todosTable s)\<rparr>"
  define t1 where "t1 = t\<lparr>completed := Some c1\<rparr>"
  have h: "healthy GetDb x = None" "healthy Select x = None" "healthy Update x = None" for x
    by (simp_all add: healthy_def)
  have first: "toggleTodo healthy i s =
      (Inr \<lparr>id_out = i, title_out = title t, completed_out = (completed t \<noteq> Some 1)\<rparr>, s1)"
    unfolding i_def s1_def c1_def
    using toggleTodo_present [where env = healthy, OF d t h [of s]] .
  have d1: "distinct (map todo_id (todosTable s1))"
    using d by (simp add: s1_def comp_def)
  have t1: "t1 \<in> set (todosTable s1)"
  proof -
    have "set_completed i c1 t = t1" by (simp add: set_completed_def i_def t1_def)
    then show ?thesis using t by (force simp: s1_def)
  qed
  have id1: "todo_id t1 = i" "title t1 = title t"
    by (simp_all add: t1_def i_def)
  have c21: "(if completed t1 = Some 1 then 0 else 1) = c2"
    by (simp add: t1_def c1_def c2_def)
  have b: "(completed t1 \<noteq> Some 1) = (completed t = Some 1)"
    by (simp add: t1_def c1_def)
  have c: "s1\<lparr>todosTable := map (set_completed i c2) (todosTable s1)\<rparr> =
      s\<lparr>todosTable := map (set_completed i c2) (todosTable s)\<rparr>"
    by (simp add: s1_def set_completed_twice comp_def)
  have second: "toggleTodo healthy i s1 =
      (Inr \<lparr>id_out = i, title_out = title t, completed_out = (completed t = Some 1)\<rparr>,
       s\<lparr>todosTable := map (set_completed i c2) (todosTable s)\<rparr>)"
    using toggleTodo_present [where env = healthy, OF d1 t1 h [of s1]]
    unfolding id1 c21 b c .
  have view: "fst (listTodos healthy (s\<lparr>todosTable := map (set_completed i c2) (todosTable s)\<rparr>)) =
      fst (listTodos healthy s)"
  proof -
    have "(completed (set_completed i c2 r) = Some 1) = (completed r = Some 1)" if "r \<in> set (todosTable s)" for r
    proof (cases "todo_id r = i")
      case True
      from d that t True have "r = t" unfolding i_def by (meson distinct_map inj_onD)
      then show ?thesis by (simp add: set_completed_def c2_def)
    next
      case False
      then show ?thesis by (simp add: set_completed_def)
    qed
    then show ?thesis
      by (simp add: listTodos_def getDb_def select_todo_where_id_def update_todo_completed_def select_todos_def h comp_def)
  qed
  have raw: "s\<lparr>todosTable := map (set_completed i c2) (todosTable s)\<rparr> = s"
    if "completed t = Some 0 \<or> completed t = Some 1"
  proof -
    from that have "completed t = Some c2" by (auto simp: c2_def)
    from set_completed_same [OF this d t] show ?thesis by (simp add: i_def)
  qed
  show ?thesis
    unfolding i_def [symmetric] using raw by (simp add: first second view)
qed

theorem toggleTodo_twice_witness:
  "distinct (map todo_id (todosTable
      \<lparr>todosTable = [\<lparr>todo_id = 1, title = Some ''a'', completed = Some 0\<rparr>,
                     \<lparr>todo_id = 2, title = None, completed = None\<rparr>], passengersTable = []\<rparr>)) \<and>
   \<lparr>todo_id = 1, title = Some ''a'', completed = Some 0\<rparr> \<in> set (todosTable
      \<lparr>todosTable = [\<lparr>todo_id = 1, title = Some ''a'', completed = Some 0\<rparr>,
                     \<lparr>todo_id = 2, title = None, completed = None\<rparr>], passengersTable = []\<rparr>) \<and>
   fst (toggleTodo healthy 1
      \<lparr>todosTable = [\<lparr>todo_id = 1, title = Some ''a'', completed = Some 0\<rparr>,
                     \<lparr>todo_id = 2, title = None, completed = None\<rparr>], passengersTable = []\<rparr>) =
     Inr \<lparr>id_out = 1, title_out = Some ''a'', completed_out = True\<rparr> \<and>
   toggleTodo healthy 1 (snd (toggleTodo healthy 1
      \<lparr>todosTable = [\<lparr>todo_id = 1, title = Some ''a'', completed = Some 0\<rparr>,
                     \<lparr>todo_id = 2, title = None, completed = None\<rparr>], passengersTable = []\<rparr>)) =
     (Inr \<lparr>id_out = 1, title_out = Some ''a'', completed_out = False\<rparr>,
      \<lparr>todosTable = [\<lparr>todo_id = 1, title = Some ''a'', completed = Some 0\<rparr>,
                     \<lparr>todo_id = 2, title = None, completed = None\<rparr>], passengersTable = []\<rparr>)"
  using toggleTodo_twice [of
      "\<lparr>todosTable = [\<lparr>todo_id = 1, title = Some ''a'', completed = Some 0\<rparr>,
                     \<lparr>todo_id = 2, title = None, completed = None\<rparr>], passengersTable = []\<rparr>"
      "\<lparr>todo_id = 1, title = Some ''a'', completed = Some 0\<rparr>"]
  by (simp add: prod_eq_iff)

text \<open>
  C10. For the id of a stored todo, \<^verbatim>\<open>toggleTodo\<close> leaves the passengers table alone and
  keeps the todos table row by row: every row keeps its id and its title, and a row with
  another id is unchanged altogether. When the store calls go through, the tool returns
  a todo with the id asked for.
\<close>

theorem toggleTodo_frame:
  assumes "t \<in> set (todosTable s)"
  shows "passengersTable (snd (toggleTodo env (todo_id t) s)) = passengersTable s \<and>
         list_all2 (\<lambda>r r'. todo_id r' = todo_id r \<and> title r' = title r \<and>
                      (todo_id r \<noteq> todo_id t \<longrightarrow> r' = r))
           (todosTable s) (todosTable (snd (toggleTodo env (todo_id t) s))) \<and>
         (env GetDb s = None \<and> env Select s = None \<and> env Update s = None \<longrightarrow>
            (\<exists>v. fst (toggleTodo env (todo_id t) s) = Inr v \<and> id_out v = todo_id t))"
proof -
  define rows' where "rows' = todosTable (snd (toggleTodo env (todo_id t) s))"
  from toggleTodo_tables [of env "todo_id t" s]
  obtain c where p: "passengersTable (snd (toggleTodo env (todo_id t) s)) = passengersTable s"
    and r: "rows' = map (set_completed (todo_id t) c) (todosTable s) \<or> rows' = todosTable s"
    unfolding rows'_def by blast
  have rows: "list_all2 (\<lambda>r r'. todo_id r' = todo_id r \<and> title r' = title r \<and>
                      (todo_id r \<noteq> todo_id t \<longrightarrow> r' = r)) (todosTable s) rows'"
    using r by (auto simp: list_all2_map2 list_all2_same set_completed_def)
  show ?thesis
  proof (intro conjI)
    show "passengersTable (snd (toggleTodo env (todo_id t) s)) = passengersTable s"
      by (fact p)
    show "list_all2 (\<lambda>r r'. todo_id r' = todo_id r \<and> title r' = title r \<and>
                      (todo_id r \<noteq> todo_id t \<longrightarrow> r' = r))
           (todosTable s) (todosTable (snd (toggleTodo env (todo_id t) s)))"
      using rows by (simp only: rows'_def)
    show "env GetDb s = None \<and> env Select s = None \<and> env Update s = None \<longrightarrow>
            (\<exists>v. fst (toggleTodo env (todo_id t) s) = Inr v \<and> id_out v = todo_id t)"
      using toggleTodo_returns [OF assms, of env] by blast
  qed
qed

theorem toggleTodo_frame_witness:
  "\<lparr>todo_id = 2, title = None, completed = None\<rparr> \<in> set (todosTable
      \<lparr>todosTable = [\<lparr>todo_id = 1, title = Some ''a'', completed = Some 0\<rparr>,
                     \<lparr>todo_id = 2, title = None, completed = None\<rparr>], passengersTable = []\<rparr>) \<and>
   healthy GetDb \<lparr>todosTable = [\<lparr>todo_id = 1, title = Some ''a'', completed = Some 0\<rparr>,
                     \<lparr>todo_id = 2, title = None, completed = None\<rparr>], passengersTable = []\<rparr> = None \<and>
   list_all2 (\<lambda>r r'. todo_id r' = todo_id r \<and> title r' = title r \<and> (todo_id r \<noteq> 2 \<longrightarrow> r' = r))
     [\<lparr>todo_id = 1, title = Some ''a'', completed = Some 0\<rparr>,
      \<lparr>todo_id = 2, title = None, completed = None\<rparr>]
     (todosTable (snd (toggleTodo healthy 2
      \<lparr>todosTable = [\<lparr>todo_id = 1, title = Some ''a'', completed = Some 0\<rparr>,
                     \<lparr>todo_id = 2, title = None, completed = None\<rparr>], passengersTable = []\<rparr>))) \<and>
   \<not> isl (fst (toggleTodo healthy 2
      \<lparr>todosTable = [\<lparr>todo_id = 1, title = Some ''a'', completed = Some 0\<rparr>,
                     \<lparr>todo_id = 2, title = None, completed = None\<rparr>], passengersTable = []\<rparr>))"
  using toggleTodo_frame [of "\<lparr>todo_id = 2, title = None, completed = None\<rparr>"
      "\<lparr>todosTable = [\<lparr>todo_id = 1, title = Some ''a'', completed = Some 0\<rparr>,
                     \<lparr>todo_id = 2, title = None, completed = None\<rparr>], passengersTable = []\<rparr>" healthy]
  by (auto simp: healthy_def)

section \<open>Properties of getPassengers\<close>

text \<open>Floors of fractions of numerals, for concrete limits.\<close>

lemma floor_rat_numeral_div [simp]:
  "\<lfloor>numeral a / numeral b :: rat\<rfloor> = numeral a div numeral b"
  by (metis floor_divide_of_int_eq of_int_numeral)

lemma floor_rat_one_div [simp]:
  "\<lfloor>1 / numeral b :: rat\<rfloor> = 1 div numeral b"
  by (metis floor_divide_of_int_eq of_int_1 of_int_numeral)

lemma healthy_op: "healthy op s = None"
  by (simp add: healthy_def)

text \<open>The five filter steps together keep exactly the rows that satisfy all filters that
  are present and not empty; the limit is applied to that list.\<close>

lemma filter_by_filter: "filter_by wanted column ps = filter (\<lambda>p. matches wanted (column p)) ps"
  by (simp add: filter_by_def matches_def)

lemma getPassengers_ok:
  assumes "env GetDb s = None" "env Select s = None"
  shows "getPassengers env ctx s =
    (Inr \<lparr>passengers = (if truthy_num (ctx_limit ctx)
                         then slice0 (filter (satisfies_filters ctx) (passengersTable s)) (the (ctx_limit ctx))
                         else filter (satisfies_filters ctx) (passengersTable s)),
           totalCount = length (if truthy_num (ctx_limit ctx)
                         then slice0 (filter (satisfies_filters ctx) (passengersTable s)) (the (ctx_limit ctx))
                         else filter (satisfies_filters ctx) (passengersTable s)),
           message = ''Retrieved '' @ String_nat (length (if truthy_num (ctx_limit ctx)
                         then slice0 (filter (satisfies_filters ctx) (passengersTable s)) (the (ctx_limit ctx))
                         else filter (satisfies_filters ctx) (passengersTable s))) @ '' passengers from database''\<rparr>, s)"
proof -
  have "filter_by (ctx_status ctx) status
         (filter_by (ctx_ticketClass ctx) ticketClass
           (filter_by (ctx_arrivalCity ctx) arrivalCity
             (filter_by (ctx_departureCity ctx) departureCity
               (filter_by (ctx_flightNumber ctx) flightNumber (passengersTable s))))) =
        filter (satisfies_filters ctx) (passengersTable s)"
    unfolding filter_by_filter satisfies_filters_def filter_filter
    by (rule filter_cong) auto
  then show ?thesis
    by (simp add: getPassengers_def getPassengers_try_def getDb_def select_passengers_def assms Let_def)
qed

lemma ToIntegerOrInfinity_pos: "0 < n \<Longrightarrow> ToIntegerOrInfinity n = \<lfloor>n\<rfloor>"
  by (simp add: ToIntegerOrInfinity_def)

lemma length_slice0_pos: "0 < n \<Longrightarrow> length (slice0 xs n) = min (nat \<lfloor>n\<rfloor>) (length xs)"
  by (simp add: slice0_def ToIntegerOrInfinity_pos min.commute)

lemma length_slice0_le:
  assumes "0 < n" shows "of_nat (length (slice0 xs n)) \<le> n"
proof -
  have "0 \<le> \<lfloor>n\<rfloor>" using assms by simp
  have "length (slice0 xs n) \<le> nat \<lfloor>n\<rfloor>"
    using assms by (simp add: length_slice0_pos)
  then have "of_nat (length (slice0 xs n)) \<le> (of_nat (nat \<lfloor>n\<rfloor>) :: rat)"
    by (rule of_nat_mono)
  also have "\<dots> = of_int \<lfloor>n\<rfloor>" using \<open>0 \<le> \<lfloor>n\<rfloor>\<close> by simp
  also have "\<dots> \<le> n" by (rule of_int_floor_le)
  finally show ?thesis .
qed

lemma set_slice0: "set (slice0 xs n) \<subseteq> set xs"
  by (auto simp: slice0_def Let_def dest: in_set_takeD)

text \<open>Four runs on the sample store, with the flight filter and limits 1.5, 0.5, 5 and 0.\<close>

lemma getPassengers_samples:
  "getPassengers healthy
      ((no_filters (Some (3 / 2)))\<lparr>ctx_flightNumber := Some ''LA1234''\<rparr>) sample_store =
     (Inr \<lparr>passengers = [sample_passenger 1 ''LA1234''], totalCount = 1,
            message = ''Retrieved 1 passengers from database''\<rparr>, sample_store)"
  "getPassengers healthy
      ((no_filters (Some (1 / 2)))\<lparr>ctx_flightNumber := Some ''LA1234''\<rparr>) sample_store =
     (Inr \<lparr>passengers = [], totalCount = 0,
            message = ''Retrieved 0 passengers from database''\<rparr>, sample_store)"
  "getPassengers healthy
      ((no_filters (Some 5))\<lparr>ctx_flightNumber := Some ''LA1234''\<rparr>) sample_store =
     (Inr \<lparr>passengers = [sample_passenger 1 ''LA1234'', sample_passenger 2 ''LA1234''],
            totalCount = 2, message = ''Retrieved 2 passengers from database''\<rparr>, sample_store)"
  "getPassengers healthy
      ((no_filters (Some 0))\<lparr>ctx_flightNumber := Some ''LA1234''\<rparr>) sample_store =
     (Inr \<lparr>passengers = [sample_passenger 1 ''LA1234'', sample_passenger 2 ''LA1234''],
            totalCount = 2, message = ''Retrieved 2 passengers from database''\<rparr>, sample_store)"
  by (simp_all add: getPassengers_def getPassengers_try_def getDb_def select_passengers_def
      healthy_def no_filters_def sample_store_def filter_by_def truthy_def truthy_num_def
      slice0_def ToIntegerOrInfinity_def sample_passenger_def Let_def)

text \<open>
  C1, as stated, fails: with three stored rows, no filter and a limit of 1, the tool
  reports \<^verbatim>\<open>totalCount\<close> 1, while three rows satisfy all supplied filters.
\<close>

theorem getPassengers_totalCount_counterexample:
  "fst (getPassengers healthy (no_filters (Some 1)) sample_store) =
     Inr \<lparr>passengers = [sample_passenger 1 ''LA1234''], totalCount = 1,
          message = ''Retrieved 1 passengers from database''\<rparr> \<and>
   length (filter (satisfies_filters (no_filters (Some 1))) (passengersTable sample_store)) = 3"
  by (simp add: getPassengers_def getPassengers_try_def getDb_def select_passengers_def
      healthy_def no_filters_def sample_store_def filter_by_def truthy_def truthy_num_def
      slice0_def ToIntegerOrInfinity_def satisfies_filters_def matches_def)

text \<open>
  C1, amended. When \<^verbatim>\<open>getDb\<close> and the select go through, \<^verbatim>\<open>getPassengers\<close> returns, and
  \<^verbatim>\<open>totalCount\<close> is the number of rows it returns, counted after the limit has been
  applied: without a limit (absent or 0) it is the number of stored rows that satisfy all
  filters that are present and not empty, and with a limit \<open>n > 0\<close>, whole or fractional,
  it is the smaller of the integer part of \<open>n\<close> and that number.
\<close>

theorem getPassengers_totalCount:
  assumes "env GetDb s = None" and "env Select s = None"
  shows "\<exists>r. getPassengers env ctx s = (Inr r, s) \<and>
           totalCount r = length (passengers r) \<and>
           (ctx_limit ctx = None \<or> ctx_limit ctx = Some 0 \<longrightarrow>
              totalCount r = length (filter (satisfies_filters ctx) (passengersTable s))) \<and>
           (\<forall>n. ctx_limit ctx = Some n \<and> 0 < n \<longrightarrow>
              totalCount r =
                min (nat \<lfloor>n\<rfloor>) (length (filter (satisfies_filters ctx) (passengersTable s))))"
  unfolding getPassengers_ok [where env = env, OF assms]
  by (auto simp: truthy_num_def length_slice0_pos)

theorem getPassengers_totalCount_witness:
  "healthy GetDb sample_store = None \<and> healthy Select sample_store = None \<and>
   totalCount (projr (fst (getPassengers healthy
      ((no_filters (Some (3 / 2)))\<lparr>ctx_flightNumber := Some ''LA1234''\<rparr>) sample_store))) = 1 \<and>
   totalCount (projr (fst (getPassengers healthy
      ((no_filters (Some (1 / 2)))\<lparr>ctx_flightNumber := Some ''LA1234''\<rparr>) sample_store))) = 0 \<and>
   totalCount (projr (fst (getPassengers healthy
      ((no_filters (Some 5))\<lparr>ctx_flightNumber := Some ''LA1234''\<rparr>) sample_store))) = 2 \<and>
   totalCount (projr (fst (getPassengers healthy
      ((no_filters (Some 0))\<lparr>ctx_flightNumber := Some ''LA1234''\<rparr>) sample_store))) = 2"
  using getPassengers_totalCount [of healthy sample_store
      "(no_filters (Some (3 / 2)))\<lparr>ctx_flightNumber := Some ''LA1234''\<rparr>"]
    getPassengers_totalCount [of healthy sample_store
      "(no_filters (Some (1 / 2)))\<lparr>ctx_flightNumber := Some ''LA1234''\<rparr>"]
    getPassengers_totalCount [of healthy sample_store
      "(no_filters (Some 5))\<lparr>ctx_flightNumber := Some ''LA1234''\<rparr>"]
    getPassengers_totalCount [of healthy sample_store
      "(no_filters (Some 0))\<lparr>ctx_flightNumber := Some ''LA1234''\<rparr>"]
  by (simp add: getPassengers_samples healthy_op)

text \<open>
  C5, as stated, fails for a filter that is supplied as the empty string: the tool skips
  it, and returns rows whose flight number is not the empty string that was asked for.
\<close>

theorem getPassengers_limit_counterexample:
  "fst (getPassengers healthy ((no_filters None)\<lparr>ctx_flightNumber := Some ''''\<rparr>) sample_store) =
     Inr \<lparr>passengers = [sample_passenger 1 ''LA1234'', sample_passenger 2 ''LA1234'',
                         sample_passenger 3 ''BR0001''],
          totalCount = 3, message = ''Retrieved 3 passengers from database''\<rparr> \<and>
   \<not> holds_if_supplied (ctx_flightNumber ((no_filters None)\<lparr>ctx_flightNumber := Some ''''\<rparr>))
       (flightNumber (sample_passenger 1 ''LA1234''))"
  by (simp add: getPassengers_def getPassengers_try_def getDb_def select_passengers_def
      healthy_def no_filters_def sample_store_def filter_by_def truthy_def truthy_num_def
      holds_if_supplied_def sample_passenger_def Let_def)

text \<open>
  C5, amended. When \<^verbatim>\<open>getDb\<close> and the select go through, \<^verbatim>\<open>getPassengers\<close> returns; for a
  limit \<open>n > 0\<close>, whole or fractional, it returns at most \<open>n\<close> rows; each returned row is a
  stored row and satisfies all filters that are present and not empty; and when the limit
  is absent or 0 the rows returned are all the stored rows that satisfy these filters.
\<close>

theorem getPassengers_limit:
  assumes "env GetDb s = None" and "env Select s = None"
  shows "\<exists>r. getPassengers env ctx s = (Inr r, s) \<and>
           (\<forall>n. ctx_limit ctx = Some n \<and> 0 < n \<longrightarrow> of_nat (length (passengers r)) \<le> n) \<and>
           set (passengers r) \<subseteq> set (passengersTable s) \<and>
           (\<forall>p \<in> set (passengers r). satisfies_filters ctx p) \<and>
           (ctx_limit ctx = None \<or> ctx_limit ctx = Some 0 \<longrightarrow>
              passengers r = filter (satisfies_filters ctx) (passengersTable s))"
proof -
  let ?f = "filter (satisfies_filters ctx) (passengersTable s)"
  have a: "of_nat (length (slice0 ?f n)) \<le> n" if "0 < n" for n
    using that by (rule length_slice0_le)
  have b: "set (slice0 ?f n) \<subseteq> set ?f" for n
    by (rule set_slice0)
  show ?thesis
    unfolding getPassengers_ok [where env = env, OF assms]
    using a b by (auto simp: truthy_num_def)
qed

theorem getPassengers_limit_witness:
  "healthy GetDb sample_store = None \<and> healthy Select sample_store = None \<and>
   of_nat (length (passengers (projr (fst (getPassengers healthy
      ((no_filters (Some (3 / 2)))\<lparr>ctx_flightNumber := Some ''LA1234''\<rparr>) sample_store))))) \<le>
     (3 / 2 :: rat) \<and>
   passengers (projr (fst (getPassengers healthy
      ((no_filters (Some 0))\<lparr>ctx_flightNumber := Some ''LA1234''\<rparr>) sample_store))) =
     [sample_passenger 1 ''LA1234'', sample_passenger 2 ''LA1234'']"
  using getPassengers_limit [of healthy sample_store
      "(no_filters (Some (3 / 2)))\<lparr>ctx_flightNumber := Some ''LA1234''\<rparr>"]
    getPassengers_limit [of healthy sample_store
      "(no_filters (Some 0))\<lparr>ctx_flightNumber := Some ''LA1234''\<rparr>"]
  by (simp add: getPassengers_samples healthy_op)

text \<open>Limits outside the positive numbers: \<^verbatim>\<open>slice(0, -1)\<close> drops the last row, and
  \<^verbatim>\<open>slice(0, 0.5)\<close> returns no row at all.\<close>

lemma getPassengers_negative_limit:
  "fst (getPassengers healthy (no_filters (Some (- 1))) sample_store) =
     Inr \<lparr>passengers = [sample_passenger 1 ''LA1234'', sample_passenger 2 ''LA1234''],
          totalCount = 2, message = ''Retrieved 2 passengers from database''\<rparr>"
  by (simp add: getPassengers_def getPassengers_try_def getDb_def select_passengers_def
      healthy_def no_filters_def sample_store_def filter_by_def truthy_def truthy_num_def
      slice0_def ToIntegerOrInfinity_def)

lemma getPassengers_fractional_limit:
  "fst (getPassengers healthy (no_filters (Some (1 / 2))) sample_store) =
     Inr \<lparr>passengers = [], totalCount = 0, message = ''Retrieved 0 passengers from database''\<rparr>"
  by (simp add: getPassengers_def getPassengers_try_def getDb_def select_passengers_def
      healthy_def no_filters_def sample_store_def filter_by_def truthy_def truthy_num_def
      slice0_def ToIntegerOrInfinity_def)

section \<open>Properties of clearDatabase\<close>

text \<open>
  C6. \<^verbatim>\<open>clearDatabase\<close> never throws. On an empty passengers table it reports success
  with \<^verbatim>\<open>deletedCount\<close> 0; on a table with rows it empties the table and reports their
  number; and when \<^verbatim>\<open>getDb\<close>, the select or the delete throws it returns
  \<^verbatim>\<open>{success: false, deletedCount: 0, message}\<close> with the store as it was.
\<close>

theorem clearDatabase_never_fails:
  "\<not> isl (fst (clearDatabase env s)) \<and>
   (env GetDb s = None \<and> env Select s = None \<and> passengersTable s = [] \<longrightarrow>
      clearDatabase env s =
        (Inr \<lparr>success_clr = True, deletedCount = 0,
               message_clr = ''Database is already empty''\<rparr>, s)) \<and>
   (env GetDb s = None \<and> env Select s = None \<and> env Delete s = None \<and>
    passengersTable s \<noteq> [] \<longrightarrow>
      clearDatabase env s =
        (Inr \<lparr>success_clr = True, deletedCount = length (passengersTable s),
               message_clr = ''Successfully cleared database. Deleted '' @
                 String_nat (length (passengersTable s)) @ '' passengers.''\<rparr>,
         s\<lparr>passengersTable := []\<rparr>)) \<and>
   (\<forall>e. env GetDb s = Some e \<or>
        (env GetDb s = None \<and> env Select s = Some e) \<or>
        (env GetDb s = None \<and> env Select s = None \<and> passengersTable s \<noteq> [] \<and>
         env Delete s = Some e) \<longrightarrow>
      clearDatabase env s =
        (Inr \<lparr>success_clr = False, deletedCount = 0,
               message_clr = ''Error clearing database: '' @ error_message e\<rparr>, s))"
proof (intro conjI)
  show "\<not> isl (fst (clearDatabase env s))"
    by (simp add: clearDatabase_def split: prod.splits sum.splits)
next
  show "env GetDb s = None \<and> env Select s = None \<and> passengersTable s = [] \<longrightarrow>
      clearDatabase env s =
        (Inr \<lparr>success_clr = True, deletedCount = 0,
               message_clr = ''Database is already empty''\<rparr>, s)"
    by (simp add: clearDatabase_def clearDatabase_try_def getDb_def select_passengers_def)
next
  show "env GetDb s = None \<and> env Select s = None \<and> env Delete s = None \<and>
    passengersTable s \<noteq> [] \<longrightarrow>
      clearDatabase env s =
        (Inr \<lparr>success_clr = True, deletedCount = length (passengersTable s),
               message_clr = ''Successfully cleared database. Deleted '' @
                 String_nat (length (passengersTable s)) @ '' passengers.''\<rparr>,
         s\<lparr>passengersTable := []\<rparr>)"
    by (simp add: clearDatabase_def clearDatabase_try_def getDb_def select_passengers_def
        delete_passengers_def Let_def)
next
  show "\<forall>e. env GetDb s = Some e \<or>
        (env GetDb s = None \<and> env Select s = Some e) \<or>
        (env GetDb s = None \<and> env Select s = None \<and> passengersTable s \<noteq> [] \<and>
         env Delete s = Some e) \<longrightarrow>
      clearDatabase env s =
        (Inr \<lparr>success_clr = False, deletedCount = 0,
               message_clr = ''Error clearing database: '' @ error_message e\<rparr>, s)"
    by (auto simp: clearDatabase_def clearDatabase_try_def getDb_def select_passengers_def
        delete_passengers_def Let_def)
qed

theorem clearDatabase_never_fails_witness:
  "clearDatabase healthy \<lparr>todosTable = [], passengersTable = []\<rparr> =
     (Inr \<lparr>success_clr = True, deletedCount = 0, message_clr = ''Database is already empty''\<rparr>,
      \<lparr>todosTable = [], passengersTable = []\<rparr>) \<and>
   clearDatabase healthy sample_store =
     (Inr \<lparr>success_clr = True, deletedCount = 3,
            message_clr = ''Successfully cleared database. Deleted 3 passengers.''\<rparr>,
      \<lparr>todosTable = [], passengersTable = []\<rparr>) \<and>
   clearDatabase (\<lambda>op s. if op = Delete then Some (Error ''disk I/O error'') else None)
      sample_store =
     (Inr \<lparr>success_clr = False, deletedCount = 0,
            message_clr = ''Error clearing database: disk I/O error''\<rparr>, sample_store)"
  using clearDatabase_never_fails [of healthy "\<lparr>todosTable = [], passengersTable = []\<rparr>"]
    clearDatabase_never_fails [of healthy sample_store]
    clearDatabase_never_fails [of
      "\<lambda>op s. if op = Delete then Some (Error ''disk I/O error'') else None" sample_store]
  by (simp add: healthy_def sample_store_def error_message_def)

section \<open>Properties of populateTestData\<close>

text \<open>An insert appends one row; so do the two import loops, row after row, and the
  count they return is the count they started from plus the number of rows appended.\<close>

lemma insert_passenger_appends:
  "insert_passenger env v s = Inr s' \<Longrightarrow>
     \<exists>row. s' = s\<lparr>passengersTable := passengersTable s @ [row]\<rparr>"
  by (auto simp: insert_passenger_def split: option.splits)

lemma import_lines_appends:
  "\<exists>ys. snd (import_lines env ls k s) = s\<lparr>passengersTable := passengersTable s @ ys\<rparr> \<and>
        (\<forall>n. fst (import_lines env ls k s) = Inr n \<longrightarrow> n = k + length ys)"
proof (induction ls arbitrary: k s)
  case Nil
  have "snd (import_lines env [] k s) = s\<lparr>passengersTable := passengersTable s @ []\<rparr>"
    by simp
  then show ?case by (intro exI [of _ "[]"]) simp
next
  case (Cons l ls)
  show ?case
  proof (cases "truthy (Some (trim l))")
    case False
    then show ?thesis using Cons.IH [of k s] by simp
  next
    case True
    show ?thesis
    proof (cases "insert_passenger env (passengerData (split (CHR '','') l)) s")
      case (Inl e)
      have "s = s\<lparr>passengersTable := passengersTable s @ []\<rparr>" by simp
      with True Inl show ?thesis
        by (intro exI [of _ "[]"]) simp
    next
      case (Inr s1)
      then obtain row where s1: "s1 = s\<lparr>passengersTable := passengersTable s @ [row]\<rparr>"
        using insert_passenger_appends by blast
      from Cons.IH [of "k + 1" s1] obtain ys where
        ys: "snd (import_lines env ls (k + 1) s1) = s1\<lparr>passengersTable := passengersTable s1 @ ys\<rparr>"
          "\<forall>n. fst (import_lines env ls (k + 1) s1) = Inr n \<longrightarrow> n = k + 1 + length ys"
        by blast
      have "snd (import_lines env (l # ls) k s) = s\<lparr>passengersTable := passengersTable s @ (row # ys)\<rparr>"
        using True Inr ys(1) by (simp add: s1)
      moreover have "\<forall>n. fst (import_lines env (l # ls) k s) = Inr n \<longrightarrow> n = k + length (row # ys)"
        using True Inr ys(2) by simp
      ultimately show ?thesis by blast
    qed
  qed
qed

lemma insertPassengers_appends:
  "\<exists>ys. snd (insertPassengers env ps k s) = s\<lparr>passengersTable := passengersTable s @ ys\<rparr> \<and>
        (\<forall>n. fst (insertPassengers env ps k s) = Inr n \<longrightarrow> n = k + length ys)"
proof (induction ps arbitrary: k s)
  case Nil
  have "snd (insertPassengers env [] k s) = s\<lparr>passengersTable := passengersTable s @ []\<rparr>"
    by simp
  then show ?case by (intro exI [of _ "[]"]) simp
next
  case (Cons p ps)
  show ?case
  proof (cases "insert_passenger env (passengerData_of_csv k p) s")
    case (Inl e)
    have "s = s\<lparr>passengersTable := passengersTable s @ []\<rparr>" by simp
    with Inl show ?thesis
      by (intro exI [of _ "[]"]) simp
  next
    case (Inr s1)
    then obtain row where s1: "s1 = s\<lparr>passengersTable := passengersTable s @ [row]\<rparr>"
      using insert_passenger_appends by blast
    from Cons.IH [of "k + 1" s1] obtain ys where
      ys: "snd (insertPassengers env ps (k + 1) s1) = s1\<lparr>passengersTable := passengersTable s1 @ ys\<rparr>"
        "\<forall>n. fst (insertPassengers env ps (k + 1) s1) = Inr n \<longrightarrow> n = k + 1 + length ys"
      by blast
    have "snd (insertPassengers env (p # ps) k s) = s\<lparr>passengersTable := passengersTable s @ (row # ys)\<rparr>"
      using Inr ys(1) by (simp add: s1)
    moreover have "\<forall>n. fst (insertPassengers env (p # ps) k s) = Inr n \<longrightarrow> n = k + length (row # ys)"
      using Inr ys(2) by simp
    ultimately show ?thesis by blast
  qed
qed

text \<open>The guard: with a row in the table, nothing is inserted.\<close>

lemma populateTestData_guard:
  assumes "passengersTable s \<noteq> []"
  shows "snd (populateTestData csv env s) = s"
    and "\<not> isl (fst (populateTestData csv env s))"
    and "importedCount (projr (fst (populateTestData csv env s))) = 0"
    and "env GetDb s = None \<and> env Select s = None \<longrightarrow>
           fst (populateTestData csv env s) =
             Inr \<lparr>success_imp = True, importedCount = 0,
                  message_imp = ''Database already contains passenger data. Use GET_PASSENGERS to retrieve data.''\<rparr>"
  using assms
  by (auto simp: populateTestData_def populateTestData_try_def getDb_def
      select_passengers_limit1_def split: option.splits)

lemma populateTestData_alt_guard:
  assumes "passengersTable s \<noteq> []"
  shows "snd (populateTestData_alt csv env s) = s"
    and "\<not> isl (fst (populateTestData_alt csv env s))"
    and "importedCount (projr (fst (populateTestData_alt csv env s))) = 0"
    and "env GetDb s = None \<and> env Select s = None \<longrightarrow>
           fst (populateTestData_alt csv env s) =
             Inr \<lparr>success_imp = True, importedCount = 0,
                  message_imp = ''Database already contains passenger data. Use CLEAR_DATABASE to clear it first, then POPULATE_TEST_DATA to populate again.''\<rparr>"
  using assms
  by (auto simp: populateTestData_alt_def populateTestData_alt_try_def getDb_def hasExistingData_def
      select_passengers_limit1_def split: option.splits)

text \<open>What a call does to the store: it appends rows, and it reports a count other than 0
  only if it has appended some.\<close>

lemma populateTestData_effect:
  "\<exists>ys. snd (populateTestData csv env s) = s\<lparr>passengersTable := passengersTable s @ ys\<rparr> \<and>
        (ys = [] \<longrightarrow> importedCount (projr (fst (populateTestData csv env s))) = 0)"
proof -
  let ?ls = "drop 1 (split (CHR 0x0A) (trim csv))"
  from import_lines_appends [of env ?ls 0 s] obtain ys where
    ys: "snd (import_lines env ?ls 0 s) = s\<lparr>passengersTable := passengersTable s @ ys\<rparr>"
      "\<forall>n. fst (import_lines env ?ls 0 s) = Inr n \<longrightarrow> n = 0 + length ys"
    by blast
  have same: "s = s\<lparr>passengersTable := passengersTable s @ []\<rparr>" by simp
  show ?thesis
  proof (cases "env GetDb s = None \<and> env Select s = None \<and> passengersTable s = []")
    case True
    obtain r s' where rs: "import_lines env ?ls 0 s = (r, s')" by (cases "import_lines env ?ls 0 s")
    with ys have s': "s' = s\<lparr>passengersTable := passengersTable s @ ys\<rparr>"
      and n: "\<forall>n. r = Inr n \<longrightarrow> n = length ys" by simp_all
    have "snd (populateTestData csv env s) = s'"
      using True rs
      by (simp add: populateTestData_def populateTestData_try_def getDb_def
          select_passengers_limit1_def Let_def split: sum.splits)
    moreover have "ys = [] \<longrightarrow> importedCount (projr (fst (populateTestData csv env s))) = 0"
      using True rs n
      by (auto simp: populateTestData_def populateTestData_try_def getDb_def
          select_passengers_limit1_def Let_def split: sum.splits)
    ultimately show ?thesis using s' by blast
  next
    case False
    then have "snd (populateTestData csv env s) = s \<and>
        importedCount (projr (fst (populateTestData csv env s))) = 0"
      by (auto simp: populateTestData_def populateTestData_try_def getDb_def
          select_passengers_limit1_def split: option.splits)
    with same show ?thesis by (intro exI [of _ "[]"]) simp
  qed
qed

lemma populateTestData_alt_effect:
  "\<exists>ys. snd (populateTestData_alt csv env s) = s\<lparr>passengersTable := passengersTable s @ ys\<rparr> \<and>
        (ys = [] \<longrightarrow> importedCount (projr (fst (populateTestData_alt csv env s))) = 0)"
proof -
  let ?ps = "parseCSVContent csv"
  from insertPassengers_appends [of env ?ps 0 s] obtain ys where
    ys: "snd (insertPassengers env ?ps 0 s) = s\<lparr>passengersTable := passengersTable s @ ys\<rparr>"
      "\<forall>n. fst (insertPassengers env ?ps 0 s) = Inr n \<longrightarrow> n = 0 + length ys"
    by blast
  have same: "s = s\<lparr>passengersTable := passengersTable s @ []\<rparr>" by simp
  show ?thesis
  proof (cases "env GetDb s = None \<and> env Select s = None \<and> passengersTable s = []")
    case True
    obtain r s' where rs: "insertPassengers env ?ps 0 s = (r, s')" by (cases "insertPassengers env ?ps 0 s")
    with ys have s': "s' = s\<lparr>passengersTable := passengersTable s @ ys\<rparr>"
      and n: "\<forall>n. r = Inr n \<longrightarrow> n = length ys" by simp_all
    have "snd (populateTestData_alt csv env s) = s'"
      using True rs
      by (simp add: populateTestData_alt_def populateTestData_alt_try_def getDb_def hasExistingData_def
          select_passengers_limit1_def split: sum.splits)
    moreover have "ys = [] \<longrightarrow> importedCount (projr (fst (populateTestData_alt csv env s))) = 0"
      using True rs n
      by (auto simp: populateTestData_alt_def populateTestData_alt_try_def getDb_def hasExistingData_def
          select_passengers_limit1_def split: sum.splits)
    ultimately show ?thesis using s' by blast
  next
    case False
    then have "snd (populateTestData_alt csv env s) = s \<and>
        importedCount (projr (fst (populateTestData_alt csv env s))) = 0"
      by (auto simp: populateTestData_alt_def populateTestData_alt_try_def getDb_def hasExistingData_def
          select_passengers_limit1_def split: option.splits)
    with same show ?thesis by (intro exI [of _ "[]"]) simp
  qed
qed

text \<open>With a store whose calls all go through, the loops run to their end.\<close>

lemma import_lines_healthy: "\<not> isl (fst (import_lines healthy ls k s))"
  by (induction ls arbitrary: k s) (simp_all add: insert_passenger_def healthy_def)

lemma insertPassengers_healthy: "\<not> isl (fst (insertPassengers healthy ps k s))"
  by (induction ps arbitrary: k s) (simp_all add: insert_passenger_def healthy_def)

lemma populateTestData_returns: "\<not> isl (fst (populateTestData csv env s))"
  by (simp add: populateTestData_def split: prod.splits sum.splits)

lemma populateTestData_alt_returns: "\<not> isl (fst (populateTestData_alt csv env s))"
  by (simp add: populateTestData_alt_def split: prod.splits sum.splits)

lemma populateTestData_healthy: "success_imp (projr (fst (populateTestData csv healthy s)))"
proof -
  let ?ls = "drop 1 (split (CHR 0x0A) (trim csv))"
  obtain r s' where rs: "import_lines healthy ?ls 0 s = (r, s')"
    by (cases "import_lines healthy ?ls 0 s")
  with import_lines_healthy [of ?ls 0 s] obtain n where "r = Inr n"
    by (cases r) auto
  with rs show ?thesis
    by (simp add: populateTestData_def populateTestData_try_def getDb_def
        select_passengers_limit1_def healthy_def Let_def)
qed

lemma populateTestData_alt_healthy: "success_imp (projr (fst (populateTestData_alt csv healthy s)))"
proof -
  let ?ps = "parseCSVContent csv"
  obtain r s' where rs: "insertPassengers healthy ?ps 0 s = (r, s')"
    by (cases "insertPassengers healthy ?ps 0 s")
  with insertPassengers_healthy [of ?ps 0 s] obtain n where "r = Inr n"
    by (cases r) auto
  with rs show ?thesis
    by (simp add: populateTestData_alt_def populateTestData_alt_try_def getDb_def hasExistingData_def
        select_passengers_limit1_def healthy_def)
qed

lemma populateTestData_again:
  "snd (populateTestData csv env (snd (populateTestData csv env s))) =
     snd (populateTestData csv env s) \<and>
   importedCount (projr (fst (populateTestData csv env (snd (populateTestData csv env s))))) = 0"
proof -
  from populateTestData_effect [of csv env s] obtain ys where
    ys: "snd (populateTestData csv env s) = s\<lparr>passengersTable := passengersTable s @ ys\<rparr>"
      "ys = [] \<longrightarrow> importedCount (projr (fst (populateTestData csv env s))) = 0"
    by blast
  show ?thesis
  proof (cases "ys = []")
    case True
    with ys have "snd (populateTestData csv env s) = s"
      "importedCount (projr (fst (populateTestData csv env s))) = 0" by simp_all
    then show ?thesis by simp
  next
    case False
    with ys(1) have "passengersTable (snd (populateTestData csv env s)) \<noteq> []" by simp
    from populateTestData_guard(1,3) [OF this] show ?thesis by simp
  qed
qed

lemma populateTestData_alt_again:
  "snd (populateTestData_alt csv env (snd (populateTestData_alt csv env s))) =
     snd (populateTestData_alt csv env s) \<and>
   importedCount (projr (fst (populateTestData_alt csv env (snd (populateTestData_alt csv env s))))) = 0"
proof -
  from populateTestData_alt_effect [of csv env s] obtain ys where
    ys: "snd (populateTestData_alt csv env s) = s\<lparr>passengersTable := passengersTable s @ ys\<rparr>"
      "ys = [] \<longrightarrow> importedCount (projr (fst (populateTestData_alt csv env s))) = 0"
    by blast
  show ?thesis
  proof (cases "ys = []")
    case True
    with ys have "snd (populateTestData_alt csv env s) = s"
      "importedCount (projr (fst (populateTestData_alt csv env s))) = 0" by simp_all
    then show ?thesis by simp
  next
    case False
    with ys(1) have "passengersTable (snd (populateTestData_alt csv env s)) \<noteq> []" by simp
    from populateTestData_alt_guard(1,3) [OF this] show ?thesis by simp
  qed
qed

text \<open>
  C3. Both versions of \<^verbatim>\<open>populateTestData\<close> always return a result. If a passenger row
  exists when the tool runs, it inserts nothing and reports \<^verbatim>\<open>importedCount\<close> 0, with
  \<^verbatim>\<open>success\<close> true once \<^verbatim>\<open>getDb\<close> and the select have gone through. The second of two
  consecutive calls leaves the store as the first call left it and reports
  \<^verbatim>\<open>importedCount\<close> 0 (so the row count is not doubled), for every CSV text and whatever
  the store calls do; when they all go through it reports success.
\<close>

theorem populateTestData_twice:
  "\<not> isl (fst (populateTestData csv env s)) \<and>
   \<not> isl (fst (populateTestData_alt csv env s)) \<and>
   (passengersTable s \<noteq> [] \<longrightarrow>
      snd (populateTestData csv env s) = s \<and>
      importedCount (projr (fst (populateTestData csv env s))) = 0 \<and>
      snd (populateTestData_alt csv env s) = s \<and>
      importedCount (projr (fst (populateTestData_alt csv env s))) = 0 \<and>
      (env GetDb s = None \<and> env Select s = None \<longrightarrow>
         success_imp (projr (fst (populateTestData csv env s))) \<and>
         success_imp (projr (fst (populateTestData_alt csv env s))))) \<and>
   snd (populateTestData csv env (snd (populateTestData csv env s))) =
     snd (populateTestData csv env s) \<and>
   importedCount (projr (fst (populateTestData csv env (snd (populateTestData csv env s))))) = 0 \<and>
   success_imp (projr (fst (populateTestData csv healthy (snd (populateTestData csv healthy s))))) \<and>
   snd (populateTestData_alt csv env (snd (populateTestData_alt csv env s))) =
     snd (populateTestData_alt csv env s) \<and>
   importedCount (projr (fst (populateTestData_alt csv env
     (snd (populateTestData_alt csv env s))))) = 0 \<and>
   success_imp (projr (fst (populateTestData_alt csv healthy
     (snd (populateTestData_alt csv healthy s)))))"
proof -
  have guard: "snd (populateTestData csv env s) = s \<and>
      importedCount (projr (fst (populateTestData csv env s))) = 0 \<and>
      snd (populateTestData_alt csv env s) = s \<and>
      importedCount (projr (fst (populateTestData_alt csv env s))) = 0 \<and>
      (env GetDb s = None \<and> env Select s = None \<longrightarrow>
         success_imp (projr (fst (populateTestData csv env s))) \<and>
         success_imp (projr (fst (populateTestData_alt csv env s))))"
    if ne: "passengersTable s \<noteq> []"
    using populateTestData_guard [where csv = csv and env = env, OF ne]
      populateTestData_alt_guard [where csv = csv and env = env, OF ne]
    by simp
  from guard populateTestData_returns [of csv env s] populateTestData_alt_returns [of csv env s]
    populateTestData_again [of csv env s] populateTestData_alt_again [of csv env s]
    populateTestData_healthy [of csv "snd (populateTestData csv healthy s)"]
    populateTestData_alt_healthy [of csv "snd (populateTestData_alt csv healthy s)"]
  show ?thesis by blast
qed

theorem populateTestData_twice_witness:
  "passengersTable sample_store \<noteq> [] \<and>
   healthy GetDb sample_store = None \<and> healthy Select sample_store = None \<and>
   populateTestData ''h\<newline>x,y'' healthy sample_store =
     (Inr \<lparr>success_imp = True, importedCount = 0,
            message_imp = ''Database already contains passenger data. Use GET_PASSENGERS to retrieve data.''\<rparr>,
      sample_store) \<and>
   snd (populateTestData_alt ''h\<newline>x,y'' healthy sample_store) = sample_store \<and>
   importedCount (projr (fst (populateTestData_alt ''h\<newline>x,y'' healthy sample_store))) = 0 \<and>
   success_imp (projr (fst (populateTestData_alt ''h\<newline>x,y'' healthy sample_store))) \<and>
   importedCount (projr (fst (populateTestData ''h\<newline>x,y'' healthy empty_store))) = 1 \<and>
   importedCount (projr (fst (populateTestData ''h\<newline>x,y'' healthy
     (snd (populateTestData ''h\<newline>x,y'' healthy empty_store))))) = 0 \<and>
   length (passengersTable (snd (populateTestData ''h\<newline>x,y'' healthy
     (snd (populateTestData ''h\<newline>x,y'' healthy empty_store))))) = 1"
  using populateTestData_twice [of "''h\<newline>x,y''" healthy sample_store]
    populateTestData_twice [of "''h\<newline>x,y''" healthy empty_store]
  by (simp add: healthy_def sample_store_def populateTestData_def populateTestData_try_def
      getDb_def select_passengers_limit1_def
      trim_def isWhiteSpace_def truthy_def passengerData_def insert_passenger_def
        new_passenger_def passenger_values.defs passenger.defs fresh_id_def empty_store_def
        at_index_def or_str_def or_null_def Let_def)

section \<open>Properties of the CSV import\<close>

lemma truncate_new_passenger: "passenger_values.truncate (new_passenger v i) = v"
  by (cases v) (simp add: new_passenger_def passenger_values.defs passenger.defs)

lemma import_lines_healthy_rows:
  "fst (import_lines healthy ls k s) =
     Inr (k + length (filter (\<lambda>line. trim line \<noteq> []) ls)) \<and>
   map passenger_values.truncate (passengersTable (snd (import_lines healthy ls k s))) =
     map passenger_values.truncate (passengersTable s) @
     map (\<lambda>line. passengerData (split (CHR '','') line)) (filter (\<lambda>line. trim line \<noteq> []) ls) \<and>
   todosTable (snd (import_lines healthy ls k s)) = todosTable s"
proof (induction ls arbitrary: k s)
  case Nil
  show ?case by simp
next
  case (Cons l ls)
  show ?case
  proof (cases "trim l = []")
    case True
    then show ?thesis using Cons.IH [of k s] by (simp add: truthy_def)
  next
    case False
    let ?s1 = "s\<lparr>passengersTable := passengersTable s @
       [new_passenger (passengerData (split (CHR '','') l)) (fresh_id (map passenger_id (passengersTable s)))]\<rparr>"
    have step: "import_lines healthy (l # ls) k s = import_lines healthy ls (k + 1) ?s1"
      using False by (simp add: truthy_def insert_passenger_def healthy_def)
    show ?thesis
      unfolding step using Cons.IH [of "k + 1" ?s1] False
      by (simp add: truncate_new_passenger)
  qed
qed

lemma importPassengersFromCSV_healthy:
  "fst (importPassengersFromCSV healthy csv s) =
     Inr \<lparr>success_imp = True,
          importedCount = length (filter (\<lambda>line. trim line \<noteq> []) (dataLines_of csv)),
          message_imp = ''Successfully imported '' @
            String_nat (length (filter (\<lambda>line. trim line \<noteq> []) (dataLines_of csv))) @
            '' passengers from CSV''\<rparr> \<and>
   map passenger_values.truncate (passengersTable (snd (importPassengersFromCSV healthy csv s))) =
     map passenger_values.truncate (passengersTable s) @
     map (\<lambda>line. passengerData (split (CHR '','') line))
       (filter (\<lambda>line. trim line \<noteq> []) (dataLines_of csv))"
proof -
  obtain r s' where rs: "import_lines healthy (dataLines_of csv) 0 s = (r, s')"
    by (cases "import_lines healthy (dataLines_of csv) 0 s")
  from import_lines_healthy_rows [of "dataLines_of csv" 0 s] rs
  have r: "r = Inr (length (filter (\<lambda>line. trim line \<noteq> []) (dataLines_of csv)))"
    and s': "map passenger_values.truncate (passengersTable s') =
      map passenger_values.truncate (passengersTable s) @
      map (\<lambda>line. passengerData (split (CHR '','') line))
        (filter (\<lambda>line. trim line \<noteq> []) (dataLines_of csv))"
    by simp_all
  have "importPassengersFromCSV healthy csv s =
     (Inr \<lparr>success_imp = True,
          importedCount = length (filter (\<lambda>line. trim line \<noteq> []) (dataLines_of csv)),
          message_imp = ''Successfully imported '' @
            String_nat (length (filter (\<lambda>line. trim line \<noteq> []) (dataLines_of csv))) @
            '' passengers from CSV''\<rparr>, s')"
    using rs r
    by (simp add: importPassengersFromCSV_def importPassengersFromCSV_try_def getDb_def
        healthy_def dataLines_of_def Let_def)
  with s' show ?thesis by simp
qed

lemma or_str_missing: "v = None \<or> v = Some [] \<Longrightarrow> or_str v d = d"
  by (auto simp: or_str_def)

lemma or_null_missing: "v = None \<or> v = Some [] \<Longrightarrow> or_null v = None"
  by (auto simp: or_null_def)

lemma passengerData_defaults:
  "(missing vals 0 \<longrightarrow> firstName (passengerData vals) = Some []) \<and>
   (missing vals 1 \<longrightarrow> lastName (passengerData vals) = Some []) \<and>
   (missing vals 2 \<longrightarrow> email (passengerData vals) = Some []) \<and>
   (missing vals 3 \<longrightarrow> phone (passengerData vals) = None) \<and>
   (missing vals 4 \<longrightarrow> passportNumber (passengerData vals) = None) \<and>
   (missing vals 5 \<longrightarrow> nationality (passengerData vals) = None) \<and>
   (missing vals 6 \<longrightarrow> dateOfBirth (passengerData vals) = None) \<and>
   (missing vals 7 \<longrightarrow> seatNumber (passengerData vals) = None) \<and>
   (missing vals 8 \<longrightarrow> flightNumber (passengerData vals) = Some []) \<and>
   (missing vals 9 \<longrightarrow> departureCity (passengerData vals) = Some []) \<and>
   (missing vals 10 \<longrightarrow> arrivalCity (passengerData vals) = Some []) \<and>
   (missing vals 11 \<longrightarrow> departureDate (passengerData vals) = Some []) \<and>
   (missing vals 12 \<longrightarrow> ticketClass (passengerData vals) = None) \<and>
   (missing vals 13 \<longrightarrow> price (passengerData vals) = None) \<and>
   (missing vals 14 \<longrightarrow> status (passengerData vals) = Some ''confirmed'')"
  by (simp add: missing_def passengerData_def or_str_missing or_null_missing)

lemma csv_passenger_of_defaults:
  "(missing vals 0 \<longrightarrow> csv_firstName (csv_passenger_of vals) = []) \<and>
   (missing vals 1 \<longrightarrow> csv_lastName (csv_passenger_of vals) = []) \<and>
   (missing vals 2 \<longrightarrow> csv_email (csv_passenger_of vals) = []) \<and>
   (missing vals 3 \<longrightarrow> csv_nationality (csv_passenger_of vals) = []) \<and>
   (missing vals 4 \<longrightarrow> csv_dateOfBirth (csv_passenger_of vals) = []) \<and>
   (missing vals 5 \<longrightarrow> csv_departureCity (csv_passenger_of vals) = []) \<and>
   (missing vals 6 \<longrightarrow> csv_arrivalCity (csv_passenger_of vals) = []) \<and>
   (missing vals 7 \<longrightarrow> csv_departureDate (csv_passenger_of vals) = []) \<and>
   (missing vals 8 \<longrightarrow> csv_distance (csv_passenger_of vals) = []) \<and>
   (missing vals 9 \<longrightarrow> csv_flightCost (csv_passenger_of vals) = [])"
  by (simp add: missing_def csv_passenger_of_def or_str_missing)

lemma parseCSVContent_rows:
  "parseCSVContent csv =
     map (\<lambda>line. csv_passenger_of (split (CHR '','') line))
       (filter (\<lambda>line. trim line \<noteq> []) (dataLines_of csv))"
  by (simp add: parseCSVContent_def dataLines_of_def truthy_def Let_def)

text \<open>
  C9, as stated, fails for the optional column \<^verbatim>\<open>status\<close>: the row imported from
  \<^verbatim>\<open>"a,b\nx,y\n"\<close> has no status position, and its status is neither null nor the empty
  string but \<^verbatim>\<open>'confirmed'\<close>.
\<close>

theorem importPassengersFromCSV_status_counterexample:
  "map status (passengersTable
     (snd (importPassengersFromCSV healthy ''a,b\<newline>x,y\<newline>'' empty_store))) =
   [Some ''confirmed'']"
  by (simp add: importPassengersFromCSV_def importPassengersFromCSV_try_def getDb_def healthy_def
      trim_def isWhiteSpace_def truthy_def passengerData_def insert_passenger_def new_passenger_def
      passenger_values.defs passenger.defs fresh_id_def empty_store_def
      at_index_def or_str_def or_null_def Let_def)

text \<open>
  C9, amended. On \<^verbatim>\<open>"a,b\nx,y\n"\<close> \<^verbatim>\<open>parseCSVContent\<close> yields exactly one row, whose first
  two fields are \<^verbatim>\<open>"x"\<close> and \<^verbatim>\<open>"y"\<close>, and the import tool stores exactly one row with these
  two fields. Blank data lines are skipped: the rows parsed, and (when the store calls go
  through) the rows stored and counted, are those of the data lines that are not blank, in
  order. A column that is missing or empty becomes, in the import tool, the empty string
  for the seven required fields, null for \<^verbatim>\<open>phone\<close>, \<^verbatim>\<open>passportNumber\<close>, \<^verbatim>\<open>nationality\<close>,
  \<^verbatim>\<open>dateOfBirth\<close>, \<^verbatim>\<open>seatNumber\<close>, \<^verbatim>\<open>ticketClass\<close> and \<^verbatim>\<open>price\<close>, and \<^verbatim>\<open>'confirmed'\<close> for
  \<^verbatim>\<open>status\<close>; in \<^verbatim>\<open>parseCSVContent\<close> it becomes the empty string for every field.
\<close>

theorem csv_rows:
  "(parseCSVContent ''a,b\<newline>x,y\<newline>'' =
     [\<lparr>csv_firstName = ''x'', csv_lastName = ''y'', csv_email = [], csv_nationality = [],
       csv_dateOfBirth = [], csv_departureCity = [], csv_arrivalCity = [],
       csv_departureDate = [], csv_distance = [], csv_flightCost = []\<rparr>] \<and>
   importPassengersFromCSV healthy ''a,b\<newline>x,y\<newline>'' empty_store =
     (Inr \<lparr>success_imp = True, importedCount = 1,
            message_imp = ''Successfully imported 1 passengers from CSV''\<rparr>,
      \<lparr>todosTable = [],
       passengersTable =
         [\<lparr>firstName = Some ''x'', lastName = Some ''y'', email = Some [], phone = None,
           passportNumber = None, nationality = None, dateOfBirth = None, seatNumber = None,
           flightNumber = Some [], departureCity = Some [], arrivalCity = Some [],
           departureDate = Some [], ticketClass = None, price = None,
           status = Some ''confirmed'', distance = None, passenger_id = 1,
           createdAt = Some ''CURRENT_TIMESTAMP''\<rparr>]\<rparr>) \<and>
   parseCSVContent csv =
     map (\<lambda>line. csv_passenger_of (split (CHR '','') line))
       (filter (\<lambda>line. trim line \<noteq> []) (dataLines_of csv)) \<and>
   importedCount (projr (fst (importPassengersFromCSV healthy csv s))) =
     length (filter (\<lambda>line. trim line \<noteq> []) (dataLines_of csv)) \<and>
   map passenger_values.truncate (passengersTable (snd (importPassengersFromCSV healthy csv s))) =
     map passenger_values.truncate (passengersTable s) @
     map (\<lambda>line. passengerData (split (CHR '','') line))
       (filter (\<lambda>line. trim line \<noteq> []) (dataLines_of csv))) \<and>
   ((missing vals 0 \<longrightarrow> firstName (passengerData vals) = Some []) \<and>
   (missing vals 1 \<longrightarrow> lastName (passengerData vals) = Some []) \<and>
   (missing vals 2 \<longrightarrow> email (passengerData vals) = Some []) \<and>
   (missing vals 3 \<longrightarrow> phone (passengerData vals) = None) \<and>
   (missing vals 4 \<longrightarrow> passportNumber (passengerData vals) = None) \<and>
   (missing vals 5 \<longrightarrow> nationality (passengerData vals) = None) \<and>
   (missing vals 6 \<longrightarrow> dateOfBirth (passengerData vals) = None) \<and>
   (missing vals 7 \<longrightarrow> seatNumber (passengerData vals) = None) \<and>
   (missing vals 8 \<longrightarrow> flightNumber (passengerData vals) = Some []) \<and>
   (missing vals 9 \<longrightarrow> departureCity (passengerData vals) = Some []) \<and>
   (missing vals 10 \<longrightarrow> arrivalCity (passengerData vals) = Some []) \<and>
   (missing vals 11 \<longrightarrow> departureDate (passengerData vals) = Some []) \<and>
   (missing vals 12 \<longrightarrow> ticketClass (passengerData vals) = None) \<and>
   (missing vals 13 \<longrightarrow> price (passengerData vals) = None) \<and>
   (missing vals 14 \<longrightarrow> status (passengerData vals) = Some ''confirmed'')) \<and>
   ((missing vals 0 \<longrightarrow> csv_firstName (csv_passenger_of vals) = []) \<and>
   (missing vals 1 \<longrightarrow> csv_lastName (csv_passenger_of vals) = []) \<and>
   (missing vals 2 \<longrightarrow> csv_email (csv_passenger_of vals) = []) \<and>
   (missing vals 3 \<longrightarrow> csv_nationality (csv_passenger_of vals) = []) \<and>
   (missing vals 4 \<longrightarrow> csv_dateOfBirth (csv_passenger_of vals) = []) \<and>
   (missing vals 5 \<longrightarrow> csv_departureCity (csv_passenger_of vals) = []) \<and>
   (missing vals 6 \<longrightarrow> csv_arrivalCity (csv_passenger_of vals) = []) \<and>
   (missing vals 7 \<longrightarrow> csv_departureDate (csv_passenger_of vals) = []) \<and>
   (missing vals 8 \<longrightarrow> csv_distance (csv_passenger_of vals) = []) \<and>
   (missing vals 9 \<longrightarrow> csv_flightCost (csv_passenger_of vals) = []))"
proof -
  have ex1: "parseCSVContent ''a,b\<newline>x,y\<newline>'' =
     [\<lparr>csv_firstName = ''x'', csv_lastName = ''y'', csv_email = [], csv_nationality = [],
       csv_dateOfBirth = [], csv_departureCity = [], csv_arrivalCity = [],
       csv_departureDate = [], csv_distance = [], csv_flightCost = []\<rparr>]"
    by (simp add: parseCSVContent_def trim_def isWhiteSpace_def truthy_def csv_passenger_of_def
        at_index_def or_str_def Let_def)
  have ex2: "importPassengersFromCSV healthy ''a,b\<newline>x,y\<newline>'' empty_store =
     (Inr \<lparr>success_imp = True, importedCount = 1,
            message_imp = ''Successfully imported 1 passengers from CSV''\<rparr>,
      \<lparr>todosTable = [],
       passengersTable =
         [\<lparr>firstName = Some ''x'', lastName = Some ''y'', email = Some [], phone = None,
           passportNumber = None, nationality = None, dateOfBirth = None, seatNumber = None,
           flightNumber = Some [], departureCity = Some [], arrivalCity = Some [],
           departureDate = Some [], ticketClass = None, price = None,
           status = Some ''confirmed'', distance = None, passenger_id = 1,
           createdAt = Some ''CURRENT_TIMESTAMP''\<rparr>]\<rparr>)"
    by (simp add: importPassengersFromCSV_def importPassengersFromCSV_try_def getDb_def
        healthy_def trim_def isWhiteSpace_def truthy_def passengerData_def insert_passenger_def
        new_passenger_def passenger_values.defs passenger.defs fresh_id_def empty_store_def
        at_index_def or_str_def or_null_def Let_def)
  have cnt: "importedCount (projr (fst (importPassengersFromCSV healthy csv s))) =
     length (filter (\<lambda>line. trim line \<noteq> []) (dataLines_of csv))"
    using importPassengersFromCSV_healthy [of csv s] by simp
  have "(parseCSVContent ''a,b\<newline>x,y\<newline>'' =
     [\<lparr>csv_firstName = ''x'', csv_lastName = ''y'', csv_email = [], csv_nationality = [],
       csv_dateOfBirth = [], csv_departureCity = [], csv_arrivalCity = [],
       csv_departureDate = [], csv_distance = [], csv_flightCost = []\<rparr>] \<and>
   importPassengersFromCSV healthy ''a,b\<newline>x,y\<newline>'' empty_store =
     (Inr \<lparr>success_imp = True, importedCount = 1,
            message_imp = ''Successfully imported 1 passengers from CSV''\<rparr>,
      \<lparr>todosTable = [],
       passengersTable =
         [\<lparr>firstName = Some ''x'', lastName = Some ''y'', email = Some [], phone = None,
           passportNumber = None, nationality = None, dateOfBirth = None, seatNumber = None,
           flightNumber = Some [], departureCity = Some [], arrivalCity = Some [],
           departureDate = Some [], ticketClass = None, price = None,
           status = Some ''confirmed'', distance = None, passenger_id = 1,
           createdAt = Some ''CURRENT_TIMESTAMP''\<rparr>]\<rparr>) \<and>
   parseCSVContent csv =
     map (\<lambda>line. csv_passenger_of (split (CHR '','') line))
       (filter (\<lambda>line. trim line \<noteq> []) (dataLines_of csv)) \<and>
   importedCount (projr (fst (importPassengersFromCSV healthy csv s))) =
     length (filter (\<lambda>line. trim line \<noteq> []) (dataLines_of csv)) \<and>
   map passenger_values.truncate (passengersTable (snd (importPassengersFromCSV healthy csv s))) =
     map passenger_values.truncate (passengersTable s) @
     map (\<lambda>line. passengerData (split (CHR '','') line))
       (filter (\<lambda>line. trim line \<noteq> []) (dataLines_of csv)))"
    by (intro conjI ex1 ex2 parseCSVContent_rows cnt
        importPassengersFromCSV_healthy [THEN conjunct2])
  then show ?thesis
    by (rule conjI [OF _ conjI [OF passengerData_defaults csv_passenger_of_defaults]])
qed

theorem csv_rows_witness:
  "missing [''x'', ''y''] 2 \<and> email (passengerData [''x'', ''y'']) = Some [] \<and>
   missing [''x'', ''y''] 3 \<and> phone (passengerData [''x'', ''y'']) = None \<and>
   missing [''x'', ''y''] 14 \<and> status (passengerData [''x'', ''y'']) = Some ''confirmed'' \<and>
   missing [''x'', ''y''] 9 \<and> csv_flightCost (csv_passenger_of [''x'', ''y'']) = [] \<and>
   length (parseCSVContent ''a,b\<newline>\<newline>x,y\<newline>  \<newline>u,v'') = 2 \<and>
   importedCount (projr (fst (importPassengersFromCSV healthy
     ''a,b\<newline>\<newline>x,y\<newline>  \<newline>u,v'' empty_store))) = 2"
  using csv_rows [where vals = "[''x'', ''y'']" and s = empty_store
      and csv = "''a,b\<newline>\<newline>x,y\<newline>  \<newline>u,v''"]
  by (simp add: missing_def at_index_def dataLines_of_def trim_def isWhiteSpace_def)

section \<open>Properties of getPassengerStats\<close>

subsection \<open>Rounding\<close>

text \<open>A positive integer below \<open>2^53\<close> is a double: rounding leaves it as it is.\<close>

lemma bit_length_bounds:
  "0 < n \<Longrightarrow> 2 ^ (bit_length n - 1) \<le> n \<and> n < 2 ^ bit_length n"
proof (induction n rule: bit_length.induct)
  case (1 n)
  show ?case
  proof (cases "n = 1")
    case True
    then show ?thesis by (simp add: bit_length.simps [of 1] bit_length.simps [of 0])
  next
    case False
    with "1.prems" have pos: "0 < n div 2" by simp
    from "1.IH" [OF _ pos] "1.prems"
    have ih: "2 ^ (bit_length (n div 2) - 1) \<le> n div 2" "n div 2 < 2 ^ bit_length (n div 2)"
      by simp_all
    have bl: "bit_length n = Suc (bit_length (n div 2))"
      using "1.prems" by (simp add: bit_length.simps [of n])
    have pos2: "0 < bit_length (n div 2)"
      using pos by (simp add: bit_length.simps [of "n div 2"])
    then obtain j where j: "bit_length (n div 2) = Suc j" by (cases "bit_length (n div 2)") auto
    have "2 * 2 ^ j \<le> 2 * (n div 2)" using ih(1) by (simp add: j)
    also have "\<dots> \<le> n" by simp
    finally have lo: "2 ^ (bit_length n - 1) \<le> n" by (simp add: bl j)
    have "n < 2 * (n div 2) + 2" by presburger
    also have "\<dots> \<le> 2 * 2 ^ bit_length (n div 2)" using ih(2) by simp
    finally have hi: "n < 2 ^ bit_length n" by (simp add: bl)
    from lo hi show ?thesis ..
  qed
qed

lemma round_half_even_of_int: "round_half_even (of_int m) = m"
  by (simp add: round_half_even_def)

lemma binary64_of_int:
  assumes "0 < n" and "n < 2 ^ 53"
  shows "binary64 (of_int n) = Num (of_int n)"
proof -
  define k where "k = bit_length n"
  from bit_length_bounds [OF assms(1)]
  have lo: "2 ^ (k - 1) \<le> n" and hi: "n < 2 ^ k" by (simp_all add: k_def)
  have k1: "1 \<le> k" using assms(1) by (simp add: k_def bit_length.simps [of n])
  have lt: "(2::int) ^ (k - 1) < 2 ^ 53" using lo assms(2) by linarith
  have "k - 1 < 53" by (rule power_less_imp_less_exp [OF _ lt]) simp
  with k1 have k53: "k \<le> 53" by linarith
  have a1: "(1::rat) \<le> of_int n" using assms(1) by simp
  have ex: "exponent_of (of_int n) = int k - 1"
    using a1 by (simp add: exponent_of_def k_def)
  have q: "pow2 (max (int k - 1) (- 1022) - 52) = 1 / 2 ^ (53 - k)"
  proof (cases "k = 53")
    case True
    then show ?thesis by (simp add: pow2_def)
  next
    case False
    with k53 have "k < 53" by simp
    then have "nat (53 - int k) = 53 - k" by linarith
    with \<open>k < 53\<close> k1 show ?thesis by (simp add: pow2_def max_def)
  qed
  have m: "(of_int n :: rat) / (1 / 2 ^ (53 - k)) = of_int (n * 2 ^ (53 - k))"
    by simp
  have y: "of_int (round_half_even ((of_int n :: rat) / (1 / 2 ^ (53 - k)))) * (1 / 2 ^ (53 - k)) =
      (of_int n :: rat)"
    unfolding m round_half_even_of_int by simp
  have "(of_int n :: rat) < of_int (2 ^ 1024)"
    using assms(2) by (simp only: of_int_less_iff) simp
  then have big: "\<not> pow2 1024 \<le> (of_int n :: rat)"
    by (simp add: pow2_def)
  have pos: "(0::rat) < of_int n" "(of_int n :: rat) \<noteq> 0" "\<bar>of_int n :: rat\<bar> = of_int n"
    using assms(1) by simp_all
  show ?thesis
    unfolding binary64_def Let_def pos(3) ex q y
    using pos(1,2) big by simp
qed

lemma binary64_numeral:
  "numeral w < (2::int) ^ 53 \<Longrightarrow> binary64 (numeral w) = Num (numeral w)"
  using binary64_of_int [of "numeral w"] by simp

lemma round2_zero: "js_divide_by (Math_round (js_times (Num 0) 100)) 100 = Num 0"
  by (simp add: js_divide_by_def Math_round_def js_times_def binary64_def)

subsection \<open>The loop\<close>

text \<open>
  For a name that \<^verbatim>\<open>Object.prototype\<close> does not have, a table that starts with the entry
  for \<open>m\<close> occurrences holds, after the updates for the keys \<open>ks\<close>, the entry for \<open>m\<close>
  plus the number of times the name occurs in \<open>ks\<close>.
\<close>

lemma bump_other: "k' \<noteq> k \<Longrightarrow> bump obj k' k = obj k"
  by (simp add: bump_def Let_def)

lemma bump_same:
  assumes "k \<notin> set Object_prototype_names"
  shows "bump obj k k =
    Some (case obj k of None \<Rightarrow> Count 1 | Some (Count n) \<Rightarrow> Count (n + 1) | Some Text \<Rightarrow> Text)"
proof -
  from assms have "k \<noteq> ''__proto__''" by (auto simp: Object_prototype_names_def)
  with assms show ?thesis
    by (simp add: bump_def Let_def split: option.splits tally.splits)
qed

lemma foldl_bump:
  assumes "k \<notin> set Object_prototype_names" and "obj k = entry_for m"
  shows "foldl bump obj ks k = entry_for (m + count_list ks k)"
  using assms(2)
proof (induction ks arbitrary: obj m)
  case Nil
  then show ?case by simp
next
  case (Cons x ks)
  show ?case
  proof (cases "x = k")
    case True
    have "bump obj k k = entry_for (Suc m)"
      using Cons.prems by (simp add: bump_same [OF assms(1)] entry_for_def)
    from Cons.IH [of "bump obj k" "Suc m", OF this] True show ?thesis by simp
  next
    case False
    then have "bump obj x k = entry_for m"
      using Cons.prems by (simp add: bump_other)
    from Cons.IH [of "bump obj x" m, OF this] False show ?thesis by simp
  qed
qed

lemma stats_loop_tables:
  "acc_byTicketClass (stats_loop ps a) =
     foldl bump (acc_byTicketClass a) (map (\<lambda>p. or_str (ticketClass p) ''unknown'') ps) \<and>
   acc_byStatus (stats_loop ps a) =
     foldl bump (acc_byStatus a) (map (\<lambda>p. or_str (status p) ''unknown'') ps) \<and>
   acc_byFlight (stats_loop ps a) =
     foldl bump (acc_byFlight a) (map (\<lambda>p. or_str (flightNumber p) ''unknown'') ps)"
proof (induction ps arbitrary: a)
  case Nil
  show ?case by simp
next
  case (Cons p ps)
  have "acc_byTicketClass (stats_step p a) =
      bump (acc_byTicketClass a) (or_str (ticketClass p) ''unknown'')"
    "acc_byStatus (stats_step p a) = bump (acc_byStatus a) (or_str (status p) ''unknown'')"
    "acc_byFlight (stats_step p a) =
      bump (acc_byFlight a) (or_str (flightNumber p) ''unknown'')"
    by (simp_all add: stats_step_def Let_def split: option.splits)
  with Cons.IH [of "stats_step p a"] show ?case by simp
qed

lemma stats_loop_prices:
  "totalPrice (stats_loop ps a) = foldl js_add (totalPrice a) (counted_prices ps) \<and>
   validPrices (stats_loop ps a) = validPrices a + length (counted_prices ps)"
proof (induction ps arbitrary: a)
  case Nil
  show ?case by (simp add: counted_prices_def)
next
  case (Cons p ps)
  let ?c = "case price p of None \<Rightarrow> None
            | Some text \<Rightarrow> if text = [] \<or> isNaN (parseFloat text) then None
                           else Some (parseFloat text)"
  have cp: "counted_prices (p # ps) = (case ?c of None \<Rightarrow> [] | Some x \<Rightarrow> [x]) @ counted_prices ps"
    by (simp add: counted_prices_def List.map_filter_simps split: option.splits)
  have step: "totalPrice (stats_step p a) =
        foldl js_add (totalPrice a) (case ?c of None \<Rightarrow> [] | Some x \<Rightarrow> [x])"
      "validPrices (stats_step p a) =
        validPrices a + length (case ?c of None \<Rightarrow> [] | Some x \<Rightarrow> [x])"
    by (simp_all add: stats_step_def Let_def split: option.splits)
  show ?case
    using Cons.IH [of "stats_step p a"] by (simp add: cp step)
qed

subsection \<open>Concrete runs\<close>

lemmas parse_eval = parseFloat_def StrUnsignedDecimalLiteral_def is_digit_def digits_value_def
  exponent_part_def pow10_def isWhiteSpace_def

lemma parseFloat_samples:
  "parseFloat ''12abc'' = Num 12" "parseFloat ''10'' = Num 10" "parseFloat ''20.00'' = Num 20"
  "parseFloat ''n/a'' = NaN" "parseFloat ''2500.00'' = Num 2500"
  by (simp_all add: parse_eval binary64_numeral)

lemmas stats_eval = getPassengerStats_def getPassengerStats_try_def getDb_def
  select_passengers_def healthy_def priced_store_def sample_passenger_def stats_step_def
  parseFloat_samples isNaN_def js_add_def js_divide_by_def js_times_def Math_round_def
  binary64_numeral bump_def Object_prototype_names_def or_str_def Let_def

lemma getPassengerStats_sample:
  "totalPassengers (projr (fst (getPassengerStats healthy
     (priced_store [Some ''10'', Some ''n/a'', None, Some '''', Some ''20.00''])))) = 5"
  "byFlight (projr (fst (getPassengerStats healthy
     (priced_store [Some ''10'', Some ''n/a'', None, Some '''', Some ''20.00'']))))
     ''LA1234'' = Some (Count 5)"
  "byFlight (projr (fst (getPassengerStats healthy
     (priced_store [Some ''10'', Some ''n/a'', None, Some '''', Some ''20.00'']))))
     ''unknown'' = None"
  "averagePrice (projr (fst (getPassengerStats healthy
     (priced_store [Some ''10'', Some ''n/a'', None, Some '''', Some ''20.00''])))) = Num 15"
  by (simp_all add: stats_eval)

lemma counted_prices_sample:
  "counted_prices (passengersTable
     (priced_store [Some ''10'', Some ''n/a'', None, Some '''', Some ''20.00''])) =
     [Num 10, Num 20]"
  by (simp add: counted_prices_def List.map_filter_simps priced_store_def sample_passenger_def
      parseFloat_samples isNaN_def)

text \<open>A flight number that is a property name of \<^verbatim>\<open>Object.prototype\<close> gets no count: the
  update concatenates strings.\<close>

lemma getPassengerStats_inherited_name:
  "byFlight (projr (fst (getPassengerStats healthy
     \<lparr>todosTable = [],
      passengersTable = [sample_passenger 1 ''constructor'', sample_passenger 2 ''constructor'']\<rparr>)))
     ''constructor'' = Some Text"
  by (simp add: stats_eval)

text \<open>
  A run in which the rounding shows. The only price is \<^verbatim>\<open>"1.005"\<close>: the double nearest to
  it lies just below 1.005, its product with 100 is the double just below 100.5, and the
  average comes out as 1.
\<close>

lemma rounding_steps:
  "parseFloat ''1.005'' = Num (1131529406376837 / 1125899906842624)"
  "binary64 (1131529406376837 / 1125899906842624) = Num (1131529406376837 / 1125899906842624)"
  "js_times (Num (1131529406376837 / 1125899906842624)) 100 =
     Num (7072058789855231 / 70368744177664)"
  by code_simp+

lemma rounding_steps2:
  "Math_round (Num (7072058789855231 / 70368744177664)) = Num 100"
  "js_divide_by (Num 100) 100 = Num 1"
  "js_add (Num 0) (Num (1131529406376837 / 1125899906842624)) =
     Num (1131529406376837 / 1125899906842624)"
  "js_divide_by (Num (1131529406376837 / 1125899906842624)) 1 =
     Num (1131529406376837 / 1125899906842624)"
  by (simp_all add: Math_round_def js_divide_by_def js_add_def rounding_steps(2)
      binary64_of_int [of 1, simplified])

lemma getPassengerStats_rounding_run:
  "averagePrice (projr (fst (getPassengerStats healthy (priced_store [Some ''1.005''])))) = Num 1"
  by (simp add: getPassengerStats_def getPassengerStats_try_def getDb_def
      select_passengers_def healthy_def priced_store_def sample_passenger_def stats_step_def
      isNaN_def rounding_steps(1,3) rounding_steps2 bump_def Object_prototype_names_def
      or_str_def Let_def)

subsection \<open>The claim\<close>

text \<open>
  C7, as stated, fails: the price \<^verbatim>\<open>"12abc"\<close> is not a number, yet \<^verbatim>\<open>parseFloat\<close> reads
  its prefix 12, so the row is counted (\<^verbatim>\<open>validPrices\<close> is 1) and the average is 12, where
  skipping the row would have left no price and an average of 0.
\<close>

theorem getPassengerStats_counterexample:
  "validPrices (stats_loop (passengersTable (priced_store [Some ''12abc'']))
     \<lparr>acc_byTicketClass = Map.empty, acc_byStatus = Map.empty, acc_byFlight = Map.empty,
      totalPrice = Num 0, validPrices = 0\<rparr>) = 1 \<and>
   averagePrice (projr (fst (getPassengerStats healthy (priced_store [Some ''12abc'']))))
     = Num 12"
  by (simp add: stats_eval)

text \<open>
  C7, amended. When \<^verbatim>\<open>getDb\<close> and the select go through, \<^verbatim>\<open>getPassengerStats\<close> returns;
  \<^verbatim>\<open>totalPassengers\<close> is the number of rows; each of the three tables, by ticket class,
  status and flight number, keyed by the field's text or by \<^verbatim>\<open>"unknown"\<close> when the field is
  null or empty, holds under every key that is not a property name of
  \<^verbatim>\<open>Object.prototype\<close> the number of rows with that key, and no entry when there is none.
  A price counts when it is present, not empty, and \<^verbatim>\<open>parseFloat\<close> reads a number from its
  longest numeric prefix; the other prices are skipped. \<^verbatim>\<open>averagePrice\<close> is 0 when no price
  counts; otherwise it is \<^verbatim>\<open>Math.round(avg * 100) / 100\<close>, where \<^verbatim>\<open>avg\<close> is the sum of the
  counted prices, added from left to right, divided by their number, every operation
  rounded to a double.
\<close>

theorem getPassengerStats_groups_and_average:
  assumes "env GetDb s = None" and "env Select s = None"
  shows "\<exists>r. getPassengerStats env s = (Inr r, s) \<and>
           totalPassengers r = length (passengersTable s) \<and>
           (\<forall>k. k \<notin> set Object_prototype_names \<longrightarrow>
              byTicketClass r k =
                entry_for (count_list
                  (map (\<lambda>p. or_str (ticketClass p) ''unknown'') (passengersTable s)) k) \<and>
              byStatus r k =
                entry_for (count_list
                  (map (\<lambda>p. or_str (status p) ''unknown'') (passengersTable s)) k) \<and>
              byFlight r k =
                entry_for (count_list
                  (map (\<lambda>p. or_str (flightNumber p) ''unknown'') (passengersTable s)) k)) \<and>
           averagePrice r =
             (if counted_prices (passengersTable s) = [] then Num 0
              else js_divide_by (Math_round (js_times
                     (js_divide_by (foldl js_add (Num 0) (counted_prices (passengersTable s)))
                        (of_nat (length (counted_prices (passengersTable s)))))
                     100)) 100)"
proof (cases "passengersTable s = []")
  case True
  then show ?thesis
    by (simp add: getPassengerStats_def getPassengerStats_try_def getDb_def
        select_passengers_def assms counted_prices_def entry_for_def)
next
  case False
  let ?init = "\<lparr>acc_byTicketClass = Map.empty, acc_byStatus = Map.empty,
                 acc_byFlight = Map.empty, totalPrice = Num 0, validPrices = 0\<rparr>"
  let ?a = "stats_loop (passengersTable s) ?init"
  let ?cp = "counted_prices (passengersTable s)"
  have e0: "Map.empty k = entry_for 0" for k :: string
    by (simp add: entry_for_def)
  have tables: "acc_byTicketClass ?a k =
        entry_for (count_list (map (\<lambda>p. or_str (ticketClass p) ''unknown'') (passengersTable s)) k)"
      "acc_byStatus ?a k =
        entry_for (count_list (map (\<lambda>p. or_str (status p) ''unknown'') (passengersTable s)) k)"
      "acc_byFlight ?a k =
        entry_for (count_list (map (\<lambda>p. or_str (flightNumber p) ''unknown'') (passengersTable s)) k)"
    if k: "k \<notin> set Object_prototype_names" for k
    using stats_loop_tables [of "passengersTable s" ?init]
      foldl_bump [OF k e0, of "map (\<lambda>p. or_str (ticketClass p) ''unknown'') (passengersTable s)"]
      foldl_bump [OF k e0, of "map (\<lambda>p. or_str (status p) ''unknown'') (passengersTable s)"]
      foldl_bump [OF k e0, of "map (\<lambda>p. or_str (flightNumber p) ''unknown'') (passengersTable s)"]
    by simp_all
  have prices: "totalPrice ?a = foldl js_add (Num 0) ?cp" "validPrices ?a = length ?cp"
    using stats_loop_prices [of "passengersTable s" ?init] by simp_all
  have avg: "js_divide_by (Math_round (js_times
        (if validPrices ?a > 0 then js_divide_by (totalPrice ?a) (of_nat (validPrices ?a))
         else Num 0) 100)) 100 =
      (if ?cp = [] then Num 0
       else js_divide_by (Math_round (js_times
              (js_divide_by (foldl js_add (Num 0) ?cp) (of_nat (length ?cp))) 100)) 100)"
    by (simp add: prices round2_zero)
  have "getPassengerStats env s =
      (Inr \<lparr>totalPassengers = length (passengersTable s),
             byTicketClass = acc_byTicketClass ?a, byStatus = acc_byStatus ?a,
             byFlight = acc_byFlight ?a,
             averagePrice = js_divide_by (Math_round (js_times
               (if validPrices ?a > 0 then js_divide_by (totalPrice ?a) (of_nat (validPrices ?a))
                else Num 0) 100)) 100,
             message_stats = ''Statistics calculated for '' @
               String_nat (length (passengersTable s)) @ '' passengers''\<rparr>, s)"
    using False
    by (simp add: getPassengerStats_def getPassengerStats_try_def getDb_def
        select_passengers_def assms Let_def)
  then show ?thesis
    using tables avg by simp
qed

theorem getPassengerStats_groups_and_average_witness:
  "healthy GetDb (priced_store [Some ''10'', Some ''n/a'', None, Some '''', Some ''20.00'']) = None \<and>
   healthy Select (priced_store [Some ''10'', Some ''n/a'', None, Some '''', Some ''20.00'']) = None \<and>
   ''LA1234'' \<notin> set Object_prototype_names \<and>
   totalPassengers (projr (fst (getPassengerStats healthy
     (priced_store [Some ''10'', Some ''n/a'', None, Some '''', Some ''20.00''])))) = 5 \<and>
   byFlight (projr (fst (getPassengerStats healthy
     (priced_store [Some ''10'', Some ''n/a'', None, Some '''', Some ''20.00'']))))
     ''LA1234'' = Some (Count 5) \<and>
   counted_prices (passengersTable
     (priced_store [Some ''10'', Some ''n/a'', None, Some '''', Some ''20.00''])) =
     [Num 10, Num 20] \<and>
   averagePrice (projr (fst (getPassengerStats healthy
     (priced_store [Some ''10'', Some ''n/a'', None, Some '''', Some ''20.00''])))) = Num 15"
  using getPassengerStats_groups_and_average [of healthy
      "priced_store [Some ''10'', Some ''n/a'', None, Some '''', Some ''20.00'']"]
  by (simp add: getPassengerStats_sample counted_prices_sample healthy_op
      Object_prototype_names_def)

end
